theory Spec2Isabelle
  imports Main
begin

section \<open>Text of the Python program\<close>

text \<open>
  Python strings are modelled as \<open>string\<close>: a list of the 256 characters with code
  points 0 to 255 (Latin-1). The character classes and the case mappings below are
  Python's own on that range: \<open>\w\<close>, \<open>\s\<close>, \<open>\d\<close> of a \<open>str\<close> pattern, \<open>str.isspace\<close>,
  \<open>str.lower\<close> and \<open>str.upper\<close>.
\<close>

definition code_point :: "char \<Rightarrow> nat" where
  "code_point c = of_char c"

definition in_range :: "nat \<Rightarrow> nat \<Rightarrow> char \<Rightarrow> bool" where
  "in_range lo hi c \<longleftrightarrow> lo \<le> code_point c \<and> code_point c \<le> hi"

definition is_digit :: "char \<Rightarrow> bool" where
  "is_digit c \<longleftrightarrow> in_range 48 57 c"

definition is_space :: "char \<Rightarrow> bool" where
  "is_space c \<longleftrightarrow> in_range 9 13 c \<or> in_range 28 32 c \<or> code_point c = 133 \<or> code_point c = 160"

definition is_word :: "char \<Rightarrow> bool" where
  "is_word c \<longleftrightarrow>
     in_range 48 57 c \<or> in_range 65 90 c \<or> code_point c = 95 \<or> in_range 97 122 c \<or>
     code_point c = 170 \<or> in_range 178 179 c \<or> code_point c = 181 \<or> in_range 185 186 c \<or>
     in_range 188 190 c \<or> in_range 192 214 c \<or> in_range 216 246 c \<or> in_range 248 255 c"

definition lower_char :: "char \<Rightarrow> char" where
  "lower_char c =
     (if in_range 65 90 c \<or> in_range 192 214 c \<or> in_range 216 222 c
      then char_of (code_point c + 32) else c)"

definition lower :: "string \<Rightarrow> string" where
  "lower s = map lower_char s"

text \<open>
  \<open>str.upper\<close> turns \<open>\<ss>\<close> (code 223) into \<open>SS\<close>. The upper-case forms of the characters
  181 and 255 lie outside Latin-1; the program only searches upper-cased text for ASCII
  words, and the model leaves these two characters as they are.
\<close>

definition upper_char :: "char \<Rightarrow> string" where
  "upper_char c =
     (if in_range 97 122 c \<or> in_range 224 246 c \<or> in_range 248 254 c
      then [char_of (code_point c - 32)]
      else if code_point c = 223 then ''SS'' else [c])"

definition upper :: "string \<Rightarrow> string" where
  "upper s = concat (map upper_char s)"

subsection \<open>The classes and case mappings of the ASCII characters\<close>

text \<open>
  The values of the functions above on the printable ASCII characters, tab, newline and
  carriage return, one equation for each character: evaluating the program on a concrete
  text looks a character up here.
\<close>

lemma lower_char_simps:
  "lower_char (CHR 0x09) = CHR 0x09" "lower_char (CHR 0x0A) = CHR 0x0A" "lower_char (CHR 0x0D) = CHR 0x0D"
  "lower_char (CHR '' '') = CHR '' ''" "lower_char (CHR ''!'') = CHR ''!''" "lower_char (CHR 0x22) = CHR 0x22"
  "lower_char (CHR ''#'') = CHR ''#''" "lower_char (CHR ''$'') = CHR ''$''" "lower_char (CHR ''%'') = CHR ''%''"
  "lower_char (CHR ''&'') = CHR ''&''" "lower_char (CHR 0x27) = CHR 0x27" "lower_char (CHR ''('') = CHR ''(''"
  "lower_char (CHR '')'') = CHR '')''" "lower_char (CHR ''*'') = CHR ''*''" "lower_char (CHR ''+'') = CHR ''+''"
  "lower_char (CHR '','') = CHR '',''" "lower_char (CHR ''-'') = CHR ''-''" "lower_char (CHR ''.'') = CHR ''.''"
  "lower_char (CHR ''/'') = CHR ''/''" "lower_char (CHR ''0'') = CHR ''0''" "lower_char (CHR ''1'') = CHR ''1''"
  "lower_char (CHR ''2'') = CHR ''2''" "lower_char (CHR ''3'') = CHR ''3''" "lower_char (CHR ''4'') = CHR ''4''"
  "lower_char (CHR ''5'') = CHR ''5''" "lower_char (CHR ''6'') = CHR ''6''" "lower_char (CHR ''7'') = CHR ''7''"
  "lower_char (CHR ''8'') = CHR ''8''" "lower_char (CHR ''9'') = CHR ''9''" "lower_char (CHR '':'') = CHR '':''"
  "lower_char (CHR '';'') = CHR '';''" "lower_char (CHR ''<'') = CHR ''<''" "lower_char (CHR ''='') = CHR ''=''"
  "lower_char (CHR ''>'') = CHR ''>''" "lower_char (CHR ''?'') = CHR ''?''" "lower_char (CHR ''@'') = CHR ''@''"
  "lower_char (CHR ''A'') = CHR ''a''" "lower_char (CHR ''B'') = CHR ''b''" "lower_char (CHR ''C'') = CHR ''c''"
  "lower_char (CHR ''D'') = CHR ''d''" "lower_char (CHR ''E'') = CHR ''e''" "lower_char (CHR ''F'') = CHR ''f''"
  "lower_char (CHR ''G'') = CHR ''g''" "lower_char (CHR ''H'') = CHR ''h''" "lower_char (CHR ''I'') = CHR ''i''"
  "lower_char (CHR ''J'') = CHR ''j''" "lower_char (CHR ''K'') = CHR ''k''" "lower_char (CHR ''L'') = CHR ''l''"
  "lower_char (CHR ''M'') = CHR ''m''" "lower_char (CHR ''N'') = CHR ''n''" "lower_char (CHR ''O'') = CHR ''o''"
  "lower_char (CHR ''P'') = CHR ''p''" "lower_char (CHR ''Q'') = CHR ''q''" "lower_char (CHR ''R'') = CHR ''r''"
  "lower_char (CHR ''S'') = CHR ''s''" "lower_char (CHR ''T'') = CHR ''t''" "lower_char (CHR ''U'') = CHR ''u''"
  "lower_char (CHR ''V'') = CHR ''v''" "lower_char (CHR ''W'') = CHR ''w''" "lower_char (CHR ''X'') = CHR ''x''"
  "lower_char (CHR ''Y'') = CHR ''y''" "lower_char (CHR ''Z'') = CHR ''z''" "lower_char (CHR ''['') = CHR ''[''"
  "lower_char (CHR 0x5C) = CHR 0x5C" "lower_char (CHR '']'') = CHR '']''" "lower_char (CHR ''^'') = CHR ''^''"
  "lower_char (CHR ''_'') = CHR ''_''" "lower_char (CHR ''`'') = CHR ''`''" "lower_char (CHR ''a'') = CHR ''a''"
  "lower_char (CHR ''b'') = CHR ''b''" "lower_char (CHR ''c'') = CHR ''c''" "lower_char (CHR ''d'') = CHR ''d''"
  "lower_char (CHR ''e'') = CHR ''e''" "lower_char (CHR ''f'') = CHR ''f''" "lower_char (CHR ''g'') = CHR ''g''"
  "lower_char (CHR ''h'') = CHR ''h''" "lower_char (CHR ''i'') = CHR ''i''" "lower_char (CHR ''j'') = CHR ''j''"
  "lower_char (CHR ''k'') = CHR ''k''" "lower_char (CHR ''l'') = CHR ''l''" "lower_char (CHR ''m'') = CHR ''m''"
  "lower_char (CHR ''n'') = CHR ''n''" "lower_char (CHR ''o'') = CHR ''o''" "lower_char (CHR ''p'') = CHR ''p''"
  "lower_char (CHR ''q'') = CHR ''q''" "lower_char (CHR ''r'') = CHR ''r''" "lower_char (CHR ''s'') = CHR ''s''"
  "lower_char (CHR ''t'') = CHR ''t''" "lower_char (CHR ''u'') = CHR ''u''" "lower_char (CHR ''v'') = CHR ''v''"
  "lower_char (CHR ''w'') = CHR ''w''" "lower_char (CHR ''x'') = CHR ''x''" "lower_char (CHR ''y'') = CHR ''y''"
  "lower_char (CHR ''z'') = CHR ''z''" "lower_char (CHR ''{'') = CHR ''{''" "lower_char (CHR ''|'') = CHR ''|''"
  "lower_char (CHR ''}'') = CHR ''}''" "lower_char (CHR ''~'') = CHR ''~''"
  by (simp_all add: lower_char_def in_range_def code_point_def) code_simp+

lemma upper_char_simps:
  "upper_char (CHR 0x09) = [CHR 0x09]" "upper_char (CHR 0x0A) = [CHR 0x0A]" "upper_char (CHR 0x0D) = [CHR 0x0D]"
  "upper_char (CHR '' '') = [CHR '' '']" "upper_char (CHR ''!'') = [CHR ''!'']" "upper_char (CHR 0x22) = [CHR 0x22]"
  "upper_char (CHR ''#'') = [CHR ''#'']" "upper_char (CHR ''$'') = [CHR ''$'']" "upper_char (CHR ''%'') = [CHR ''%'']"
  "upper_char (CHR ''&'') = [CHR ''&'']" "upper_char (CHR 0x27) = [CHR 0x27]" "upper_char (CHR ''('') = [CHR ''('']"
  "upper_char (CHR '')'') = [CHR '')'']" "upper_char (CHR ''*'') = [CHR ''*'']" "upper_char (CHR ''+'') = [CHR ''+'']"
  "upper_char (CHR '','') = [CHR '','']" "upper_char (CHR ''-'') = [CHR ''-'']" "upper_char (CHR ''.'') = [CHR ''.'']"
  "upper_char (CHR ''/'') = [CHR ''/'']" "upper_char (CHR ''0'') = [CHR ''0'']" "upper_char (CHR ''1'') = [CHR ''1'']"
  "upper_char (CHR ''2'') = [CHR ''2'']" "upper_char (CHR ''3'') = [CHR ''3'']" "upper_char (CHR ''4'') = [CHR ''4'']"
  "upper_char (CHR ''5'') = [CHR ''5'']" "upper_char (CHR ''6'') = [CHR ''6'']" "upper_char (CHR ''7'') = [CHR ''7'']"
  "upper_char (CHR ''8'') = [CHR ''8'']" "upper_char (CHR ''9'') = [CHR ''9'']" "upper_char (CHR '':'') = [CHR '':'']"
  "upper_char (CHR '';'') = [CHR '';'']" "upper_char (CHR ''<'') = [CHR ''<'']" "upper_char (CHR ''='') = [CHR ''='']"
  "upper_char (CHR ''>'') = [CHR ''>'']" "upper_char (CHR ''?'') = [CHR ''?'']" "upper_char (CHR ''@'') = [CHR ''@'']"
  "upper_char (CHR ''A'') = [CHR ''A'']" "upper_char (CHR ''B'') = [CHR ''B'']" "upper_char (CHR ''C'') = [CHR ''C'']"
  "upper_char (CHR ''D'') = [CHR ''D'']" "upper_char (CHR ''E'') = [CHR ''E'']" "upper_char (CHR ''F'') = [CHR ''F'']"
  "upper_char (CHR ''G'') = [CHR ''G'']" "upper_char (CHR ''H'') = [CHR ''H'']" "upper_char (CHR ''I'') = [CHR ''I'']"
  "upper_char (CHR ''J'') = [CHR ''J'']" "upper_char (CHR ''K'') = [CHR ''K'']" "upper_char (CHR ''L'') = [CHR ''L'']"
  "upper_char (CHR ''M'') = [CHR ''M'']" "upper_char (CHR ''N'') = [CHR ''N'']" "upper_char (CHR ''O'') = [CHR ''O'']"
  "upper_char (CHR ''P'') = [CHR ''P'']" "upper_char (CHR ''Q'') = [CHR ''Q'']" "upper_char (CHR ''R'') = [CHR ''R'']"
  "upper_char (CHR ''S'') = [CHR ''S'']" "upper_char (CHR ''T'') = [CHR ''T'']" "upper_char (CHR ''U'') = [CHR ''U'']"
  "upper_char (CHR ''V'') = [CHR ''V'']" "upper_char (CHR ''W'') = [CHR ''W'']" "upper_char (CHR ''X'') = [CHR ''X'']"
  "upper_char (CHR ''Y'') = [CHR ''Y'']" "upper_char (CHR ''Z'') = [CHR ''Z'']" "upper_char (CHR ''['') = [CHR ''['']"
  "upper_char (CHR 0x5C) = [CHR 0x5C]" "upper_char (CHR '']'') = [CHR '']'']" "upper_char (CHR ''^'') = [CHR ''^'']"
  "upper_char (CHR ''_'') = [CHR ''_'']" "upper_char (CHR ''`'') = [CHR ''`'']" "upper_char (CHR ''a'') = [CHR ''A'']"
  "upper_char (CHR ''b'') = [CHR ''B'']" "upper_char (CHR ''c'') = [CHR ''C'']" "upper_char (CHR ''d'') = [CHR ''D'']"
  "upper_char (CHR ''e'') = [CHR ''E'']" "upper_char (CHR ''f'') = [CHR ''F'']" "upper_char (CHR ''g'') = [CHR ''G'']"
  "upper_char (CHR ''h'') = [CHR ''H'']" "upper_char (CHR ''i'') = [CHR ''I'']" "upper_char (CHR ''j'') = [CHR ''J'']"
  "upper_char (CHR ''k'') = [CHR ''K'']" "upper_char (CHR ''l'') = [CHR ''L'']" "upper_char (CHR ''m'') = [CHR ''M'']"
  "upper_char (CHR ''n'') = [CHR ''N'']" "upper_char (CHR ''o'') = [CHR ''O'']" "upper_char (CHR ''p'') = [CHR ''P'']"
  "upper_char (CHR ''q'') = [CHR ''Q'']" "upper_char (CHR ''r'') = [CHR ''R'']" "upper_char (CHR ''s'') = [CHR ''S'']"
  "upper_char (CHR ''t'') = [CHR ''T'']" "upper_char (CHR ''u'') = [CHR ''U'']" "upper_char (CHR ''v'') = [CHR ''V'']"
  "upper_char (CHR ''w'') = [CHR ''W'']" "upper_char (CHR ''x'') = [CHR ''X'']" "upper_char (CHR ''y'') = [CHR ''Y'']"
  "upper_char (CHR ''z'') = [CHR ''Z'']" "upper_char (CHR ''{'') = [CHR ''{'']" "upper_char (CHR ''|'') = [CHR ''|'']"
  "upper_char (CHR ''}'') = [CHR ''}'']" "upper_char (CHR ''~'') = [CHR ''~'']"
  by (simp_all add: upper_char_def in_range_def code_point_def) code_simp+

lemma is_word_simps:
  "\<not> is_word (CHR 0x09)" "\<not> is_word (CHR 0x0A)" "\<not> is_word (CHR 0x0D)" "\<not> is_word (CHR '' '')"
  "\<not> is_word (CHR ''!'')" "\<not> is_word (CHR 0x22)" "\<not> is_word (CHR ''#'')" "\<not> is_word (CHR ''$'')"
  "\<not> is_word (CHR ''%'')" "\<not> is_word (CHR ''&'')" "\<not> is_word (CHR 0x27)" "\<not> is_word (CHR ''('')"
  "\<not> is_word (CHR '')'')" "\<not> is_word (CHR ''*'')" "\<not> is_word (CHR ''+'')" "\<not> is_word (CHR '','')"
  "\<not> is_word (CHR ''-'')" "\<not> is_word (CHR ''.'')" "\<not> is_word (CHR ''/'')" "is_word (CHR ''0'')"
  "is_word (CHR ''1'')" "is_word (CHR ''2'')" "is_word (CHR ''3'')" "is_word (CHR ''4'')"
  "is_word (CHR ''5'')" "is_word (CHR ''6'')" "is_word (CHR ''7'')" "is_word (CHR ''8'')"
  "is_word (CHR ''9'')" "\<not> is_word (CHR '':'')" "\<not> is_word (CHR '';'')" "\<not> is_word (CHR ''<'')"
  "\<not> is_word (CHR ''='')" "\<not> is_word (CHR ''>'')" "\<not> is_word (CHR ''?'')" "\<not> is_word (CHR ''@'')"
  "is_word (CHR ''A'')" "is_word (CHR ''B'')" "is_word (CHR ''C'')" "is_word (CHR ''D'')"
  "is_word (CHR ''E'')" "is_word (CHR ''F'')" "is_word (CHR ''G'')" "is_word (CHR ''H'')"
  "is_word (CHR ''I'')" "is_word (CHR ''J'')" "is_word (CHR ''K'')" "is_word (CHR ''L'')"
  "is_word (CHR ''M'')" "is_word (CHR ''N'')" "is_word (CHR ''O'')" "is_word (CHR ''P'')"
  "is_word (CHR ''Q'')" "is_word (CHR ''R'')" "is_word (CHR ''S'')" "is_word (CHR ''T'')"
  "is_word (CHR ''U'')" "is_word (CHR ''V'')" "is_word (CHR ''W'')" "is_word (CHR ''X'')"
  "is_word (CHR ''Y'')" "is_word (CHR ''Z'')" "\<not> is_word (CHR ''['')" "\<not> is_word (CHR 0x5C)"
  "\<not> is_word (CHR '']'')" "\<not> is_word (CHR ''^'')" "is_word (CHR ''_'')" "\<not> is_word (CHR ''`'')"
  "is_word (CHR ''a'')" "is_word (CHR ''b'')" "is_word (CHR ''c'')" "is_word (CHR ''d'')"
  "is_word (CHR ''e'')" "is_word (CHR ''f'')" "is_word (CHR ''g'')" "is_word (CHR ''h'')"
  "is_word (CHR ''i'')" "is_word (CHR ''j'')" "is_word (CHR ''k'')" "is_word (CHR ''l'')"
  "is_word (CHR ''m'')" "is_word (CHR ''n'')" "is_word (CHR ''o'')" "is_word (CHR ''p'')"
  "is_word (CHR ''q'')" "is_word (CHR ''r'')" "is_word (CHR ''s'')" "is_word (CHR ''t'')"
  "is_word (CHR ''u'')" "is_word (CHR ''v'')" "is_word (CHR ''w'')" "is_word (CHR ''x'')"
  "is_word (CHR ''y'')" "is_word (CHR ''z'')" "\<not> is_word (CHR ''{'')" "\<not> is_word (CHR ''|'')"
  "\<not> is_word (CHR ''}'')" "\<not> is_word (CHR ''~'')"
  by (simp_all add: is_word_def in_range_def code_point_def)

lemma is_space_simps:
  "is_space (CHR 0x09)" "is_space (CHR 0x0A)" "is_space (CHR 0x0D)" "is_space (CHR '' '')"
  "\<not> is_space (CHR ''!'')" "\<not> is_space (CHR 0x22)" "\<not> is_space (CHR ''#'')" "\<not> is_space (CHR ''$'')"
  "\<not> is_space (CHR ''%'')" "\<not> is_space (CHR ''&'')" "\<not> is_space (CHR 0x27)" "\<not> is_space (CHR ''('')"
  "\<not> is_space (CHR '')'')" "\<not> is_space (CHR ''*'')" "\<not> is_space (CHR ''+'')" "\<not> is_space (CHR '','')"
  "\<not> is_space (CHR ''-'')" "\<not> is_space (CHR ''.'')" "\<not> is_space (CHR ''/'')" "\<not> is_space (CHR ''0'')"
  "\<not> is_space (CHR ''1'')" "\<not> is_space (CHR ''2'')" "\<not> is_space (CHR ''3'')" "\<not> is_space (CHR ''4'')"
  "\<not> is_space (CHR ''5'')" "\<not> is_space (CHR ''6'')" "\<not> is_space (CHR ''7'')" "\<not> is_space (CHR ''8'')"
  "\<not> is_space (CHR ''9'')" "\<not> is_space (CHR '':'')" "\<not> is_space (CHR '';'')" "\<not> is_space (CHR ''<'')"
  "\<not> is_space (CHR ''='')" "\<not> is_space (CHR ''>'')" "\<not> is_space (CHR ''?'')" "\<not> is_space (CHR ''@'')"
  "\<not> is_space (CHR ''A'')" "\<not> is_space (CHR ''B'')" "\<not> is_space (CHR ''C'')" "\<not> is_space (CHR ''D'')"
  "\<not> is_space (CHR ''E'')" "\<not> is_space (CHR ''F'')" "\<not> is_space (CHR ''G'')" "\<not> is_space (CHR ''H'')"
  "\<not> is_space (CHR ''I'')" "\<not> is_space (CHR ''J'')" "\<not> is_space (CHR ''K'')" "\<not> is_space (CHR ''L'')"
  "\<not> is_space (CHR ''M'')" "\<not> is_space (CHR ''N'')" "\<not> is_space (CHR ''O'')" "\<not> is_space (CHR ''P'')"
  "\<not> is_space (CHR ''Q'')" "\<not> is_space (CHR ''R'')" "\<not> is_space (CHR ''S'')" "\<not> is_space (CHR ''T'')"
  "\<not> is_space (CHR ''U'')" "\<not> is_space (CHR ''V'')" "\<not> is_space (CHR ''W'')" "\<not> is_space (CHR ''X'')"
  "\<not> is_space (CHR ''Y'')" "\<not> is_space (CHR ''Z'')" "\<not> is_space (CHR ''['')" "\<not> is_space (CHR 0x5C)"
  "\<not> is_space (CHR '']'')" "\<not> is_space (CHR ''^'')" "\<not> is_space (CHR ''_'')" "\<not> is_space (CHR ''`'')"
  "\<not> is_space (CHR ''a'')" "\<not> is_space (CHR ''b'')" "\<not> is_space (CHR ''c'')" "\<not> is_space (CHR ''d'')"
  "\<not> is_space (CHR ''e'')" "\<not> is_space (CHR ''f'')" "\<not> is_space (CHR ''g'')" "\<not> is_space (CHR ''h'')"
  "\<not> is_space (CHR ''i'')" "\<not> is_space (CHR ''j'')" "\<not> is_space (CHR ''k'')" "\<not> is_space (CHR ''l'')"
  "\<not> is_space (CHR ''m'')" "\<not> is_space (CHR ''n'')" "\<not> is_space (CHR ''o'')" "\<not> is_space (CHR ''p'')"
  "\<not> is_space (CHR ''q'')" "\<not> is_space (CHR ''r'')" "\<not> is_space (CHR ''s'')" "\<not> is_space (CHR ''t'')"
  "\<not> is_space (CHR ''u'')" "\<not> is_space (CHR ''v'')" "\<not> is_space (CHR ''w'')" "\<not> is_space (CHR ''x'')"
  "\<not> is_space (CHR ''y'')" "\<not> is_space (CHR ''z'')" "\<not> is_space (CHR ''{'')" "\<not> is_space (CHR ''|'')"
  "\<not> is_space (CHR ''}'')" "\<not> is_space (CHR ''~'')"
  by (simp_all add: is_space_def in_range_def code_point_def)

lemma is_digit_simps:
  "\<not> is_digit (CHR 0x09)" "\<not> is_digit (CHR 0x0A)" "\<not> is_digit (CHR 0x0D)" "\<not> is_digit (CHR '' '')"
  "\<not> is_digit (CHR ''!'')" "\<not> is_digit (CHR 0x22)" "\<not> is_digit (CHR ''#'')" "\<not> is_digit (CHR ''$'')"
  "\<not> is_digit (CHR ''%'')" "\<not> is_digit (CHR ''&'')" "\<not> is_digit (CHR 0x27)" "\<not> is_digit (CHR ''('')"
  "\<not> is_digit (CHR '')'')" "\<not> is_digit (CHR ''*'')" "\<not> is_digit (CHR ''+'')" "\<not> is_digit (CHR '','')"
  "\<not> is_digit (CHR ''-'')" "\<not> is_digit (CHR ''.'')" "\<not> is_digit (CHR ''/'')" "is_digit (CHR ''0'')"
  "is_digit (CHR ''1'')" "is_digit (CHR ''2'')" "is_digit (CHR ''3'')" "is_digit (CHR ''4'')"
  "is_digit (CHR ''5'')" "is_digit (CHR ''6'')" "is_digit (CHR ''7'')" "is_digit (CHR ''8'')"
  "is_digit (CHR ''9'')" "\<not> is_digit (CHR '':'')" "\<not> is_digit (CHR '';'')" "\<not> is_digit (CHR ''<'')"
  "\<not> is_digit (CHR ''='')" "\<not> is_digit (CHR ''>'')" "\<not> is_digit (CHR ''?'')" "\<not> is_digit (CHR ''@'')"
  "\<not> is_digit (CHR ''A'')" "\<not> is_digit (CHR ''B'')" "\<not> is_digit (CHR ''C'')" "\<not> is_digit (CHR ''D'')"
  "\<not> is_digit (CHR ''E'')" "\<not> is_digit (CHR ''F'')" "\<not> is_digit (CHR ''G'')" "\<not> is_digit (CHR ''H'')"
  "\<not> is_digit (CHR ''I'')" "\<not> is_digit (CHR ''J'')" "\<not> is_digit (CHR ''K'')" "\<not> is_digit (CHR ''L'')"
  "\<not> is_digit (CHR ''M'')" "\<not> is_digit (CHR ''N'')" "\<not> is_digit (CHR ''O'')" "\<not> is_digit (CHR ''P'')"
  "\<not> is_digit (CHR ''Q'')" "\<not> is_digit (CHR ''R'')" "\<not> is_digit (CHR ''S'')" "\<not> is_digit (CHR ''T'')"
  "\<not> is_digit (CHR ''U'')" "\<not> is_digit (CHR ''V'')" "\<not> is_digit (CHR ''W'')" "\<not> is_digit (CHR ''X'')"
  "\<not> is_digit (CHR ''Y'')" "\<not> is_digit (CHR ''Z'')" "\<not> is_digit (CHR ''['')" "\<not> is_digit (CHR 0x5C)"
  "\<not> is_digit (CHR '']'')" "\<not> is_digit (CHR ''^'')" "\<not> is_digit (CHR ''_'')" "\<not> is_digit (CHR ''`'')"
  "\<not> is_digit (CHR ''a'')" "\<not> is_digit (CHR ''b'')" "\<not> is_digit (CHR ''c'')" "\<not> is_digit (CHR ''d'')"
  "\<not> is_digit (CHR ''e'')" "\<not> is_digit (CHR ''f'')" "\<not> is_digit (CHR ''g'')" "\<not> is_digit (CHR ''h'')"
  "\<not> is_digit (CHR ''i'')" "\<not> is_digit (CHR ''j'')" "\<not> is_digit (CHR ''k'')" "\<not> is_digit (CHR ''l'')"
  "\<not> is_digit (CHR ''m'')" "\<not> is_digit (CHR ''n'')" "\<not> is_digit (CHR ''o'')" "\<not> is_digit (CHR ''p'')"
  "\<not> is_digit (CHR ''q'')" "\<not> is_digit (CHR ''r'')" "\<not> is_digit (CHR ''s'')" "\<not> is_digit (CHR ''t'')"
  "\<not> is_digit (CHR ''u'')" "\<not> is_digit (CHR ''v'')" "\<not> is_digit (CHR ''w'')" "\<not> is_digit (CHR ''x'')"
  "\<not> is_digit (CHR ''y'')" "\<not> is_digit (CHR ''z'')" "\<not> is_digit (CHR ''{'')" "\<not> is_digit (CHR ''|'')"
  "\<not> is_digit (CHR ''}'')" "\<not> is_digit (CHR ''~'')"
  by (simp_all add: is_digit_def in_range_def code_point_def)

lemmas char_tabs = lower_char_simps upper_char_simps is_word_simps is_space_simps is_digit_simps

section \<open>Regular expressions of Python's \<open>re\<close> module\<close>

datatype flag = IGNORECASE | MULTILINE | DOTALL

datatype cset = Ch char | Rng char char | Cat_word | Cat_space | Cat_digit

datatype regex =
    Str string
  | Dot
  | In "cset list"
  | NotIn "cset list"
  | Seq regex regex
  | Alt regex regex
  | Opt regex
  | Star regex
  | Group nat regex
  | NotAhead regex
  | WordB
  | Bol
  | Eol

definition Plus :: "regex \<Rightarrow> regex" where
  "Plus r = Seq r (Star r)"

fun seqs :: "regex list \<Rightarrow> regex" where
  "seqs [] = Str []"
| "seqs [r] = r"
| "seqs (r # rs) = Seq r (seqs rs)"

fun alts :: "regex list \<Rightarrow> regex" where
  "alts [] = NotAhead (Str [])"
| "alts [r] = r"
| "alts (r # rs) = Alt r (alts rs)"

definition chr_eq :: "flag list \<Rightarrow> char \<Rightarrow> char \<Rightarrow> bool" where
  "chr_eq fl a x \<longleftrightarrow> (if IGNORECASE \<in> set fl then lower_char a = lower_char x else a = x)"

fun item_ok :: "flag list \<Rightarrow> char \<Rightarrow> cset \<Rightarrow> bool" where
  "item_ok fl x (Ch a) = chr_eq fl a x"
| "item_ok fl x (Rng a b) =
     (if IGNORECASE \<in> set fl
      then (code_point a \<le> code_point (lower_char x) \<and> code_point (lower_char x) \<le> code_point b)
         \<or> (\<exists>u \<in> set (upper_char x). code_point a \<le> code_point u \<and> code_point u \<le> code_point b)
      else code_point a \<le> code_point x \<and> code_point x \<le> code_point b)"
| "item_ok fl x Cat_word = is_word x"
| "item_ok fl x Cat_space = is_space x"
| "item_ok fl x Cat_digit = is_digit x"

definition in_set :: "flag list \<Rightarrow> cset list \<Rightarrow> char \<Rightarrow> bool" where
  "in_set fl cs x \<longleftrightarrow> (\<exists>i \<in> set cs. item_ok fl x i)"

fun lit_match :: "flag list \<Rightarrow> string \<Rightarrow> char option \<Rightarrow> string \<Rightarrow> (char option \<times> string) option" where
  "lit_match fl [] p s = Some (p, s)"
| "lit_match fl (a # as) p [] = None"
| "lit_match fl (a # as) p (x # xs) = (if chr_eq fl a x then lit_match fl as (Some x) xs else None)"

definition word_before :: "char option \<Rightarrow> bool" where
  "word_before p = (case p of None \<Rightarrow> False | Some c \<Rightarrow> is_word c)"

definition word_after :: "string \<Rightarrow> bool" where
  "word_after s = (case s of [] \<Rightarrow> False | c # _ \<Rightarrow> is_word c)"

type_synonym groups = "(nat \<times> string) list"

type_synonym mstate = "char option \<times> string \<times> groups"

function rmatch :: "flag list \<Rightarrow> regex \<Rightarrow> char option \<Rightarrow> string \<Rightarrow> groups \<Rightarrow> mstate list" where
  "rmatch fl (Str w) p s g =
     (case lit_match fl w p s of None \<Rightarrow> [] | Some (p', s') \<Rightarrow> [(p', s', g)])"
| "rmatch fl Dot p s g =
     (case s of [] \<Rightarrow> []
      | x # xs \<Rightarrow> if DOTALL \<in> set fl \<or> x \<noteq> CHR 0x0A then [(Some x, xs, g)] else [])"
| "rmatch fl (In cs) p s g =
     (case s of [] \<Rightarrow> [] | x # xs \<Rightarrow> if in_set fl cs x then [(Some x, xs, g)] else [])"
| "rmatch fl (NotIn cs) p s g =
     (case s of [] \<Rightarrow> [] | x # xs \<Rightarrow> if in_set fl cs x then [] else [(Some x, xs, g)])"
| "rmatch fl (Seq r1 r2) p s g =
     concat (map (\<lambda>(p', s', g'). rmatch fl r2 p' s' g') (rmatch fl r1 p s g))"
| "rmatch fl (Alt r1 r2) p s g = rmatch fl r1 p s g @ rmatch fl r2 p s g"
| "rmatch fl (Opt r) p s g = rmatch fl r p s g @ [(p, s, g)]"
| "rmatch fl (Star r) p s g =
     concat (map (\<lambda>(p', s', g'). if length s' < length s then rmatch fl (Star r) p' s' g' else [])
               (rmatch fl r p s g))
     @ [(p, s, g)]"
| "rmatch fl (Group n r) p s g =
     map (\<lambda>(p', s', g'). (p', s', (n, take (length s - length s') s) # g')) (rmatch fl r p s g)"
| "rmatch fl (NotAhead r) p s g = (if rmatch fl r p s g = [] then [(p, s, g)] else [])"
| "rmatch fl WordB p s g = (if word_before p \<noteq> word_after s then [(p, s, g)] else [])"
| "rmatch fl Bol p s g =
     (if p = None \<or> (MULTILINE \<in> set fl \<and> p = Some (CHR 0x0A)) then [(p, s, g)] else [])"
| "rmatch fl Eol p s g =
     (case s of
        [] \<Rightarrow> [(p, s, g)]
      | x # xs \<Rightarrow> if x = CHR 0x0A \<and> (xs = [] \<or> MULTILINE \<in> set fl) then [(p, s, g)] else [])"
  by pat_completeness auto
termination
  by (relation "inv_image (less_than <*lex*> less_than) (\<lambda>(fl, r, p, s, g). (size r, length s))")
     auto


declare rmatch.simps(8) [simp del]

text \<open>
  \<open>rmatch\<close> lists, in the order in which Python's backtracking matcher tries them, the
  ways a pattern can match at a position: the character before the position, the text
  from it on, and the groups captured so far. Every repetition in the program's patterns
  is over a single character, so an iteration always consumes text.
\<close>

lemma lit_match_length: "lit_match fl w p s = Some (p', s') \<Longrightarrow> length s' \<le> length s"
  by (induction fl w p s rule: lit_match.induct) (auto split: if_splits)

lemma rmatch_length: "(p', s', g') \<in> set (rmatch fl r p s g) \<Longrightarrow> length s' \<le> length s"
proof (induction fl r p s g arbitrary: p' s' g' rule: rmatch.induct)
  case (1 fl w p s g)
  then show ?case by (auto split: option.splits dest: lit_match_length[OF sym])
next
  case (2 fl p s g)
  then show ?case by (auto split: list.splits if_splits)
next
  case (3 fl cs p s g)
  then show ?case by (auto split: list.splits if_splits)
next
  case (4 fl cs p s g)
  then show ?case by (auto split: list.splits if_splits)
next
  case (5 fl r1 r2 p s g)
  from "5.prems" obtain p1 s1 g1 where
    a: "(p1, s1, g1) \<in> set (rmatch fl r1 p s g)" and b: "(p', s', g') \<in> set (rmatch fl r2 p1 s1 g1)"
    by auto
  from "5.IH"(1)[OF a] "5.IH"(2)[OF a refl refl b] show ?case by simp
next
  case (6 fl r1 r2 p s g)
  then show ?case by auto
next
  case (7 fl r p s g)
  then show ?case by auto
next
  case (8 fl r p s g)
  show ?case
  proof (cases "(p', s', g') = (p, s, g)")
    case True
    then show ?thesis by simp
  next
    case False
    from "8.prems" have "(p', s', g') \<in> set (concat (map (\<lambda>(p', s', g'). if length s' < length s then rmatch fl (Star r) p' s' g' else [])
               (rmatch fl r p s g)) @ [(p, s, g)])"
      by (subst (asm) rmatch.simps(8))
    with False obtain p1 s1 g1 where
      a: "(p1, s1, g1) \<in> set (rmatch fl r p s g)" and l: "length s1 < length s"
      and b: "(p', s', g') \<in> set (rmatch fl (Star r) p1 s1 g1)"
      by (auto split: if_splits)
    from "8.IH"(2)[OF a refl refl l b] l show ?thesis by simp
  qed
next
  case (9 fl n r p s g)
  then show ?case by auto
next
  case (10 fl r p s g)
  then show ?case by (auto split: if_splits)
next
  case (11 fl p s g)
  then show ?case by (auto split: if_splits)
next
  case (12 fl p s g)
  then show ?case by (auto split: if_splits)
next
  case (13 fl p s g)
  then show ?case by (auto split: list.splits if_splits)
qed

record rematch =
  whole :: string
  grps :: groups

definition group :: "rematch \<Rightarrow> nat \<Rightarrow> string option" where
  "group m n = (if n = 0 then Some (whole m) else map_of (grps m) n)"

definition group_or_empty :: "rematch \<Rightarrow> nat \<Rightarrow> string" where
  "group_or_empty m n = (case group m n of None \<Rightarrow> [] | Some x \<Rightarrow> x)"

definition match_at :: "flag list \<Rightarrow> regex \<Rightarrow> bool \<Rightarrow> char option \<Rightarrow> string \<Rightarrow> mstate option" where
  "match_at fl r adv p s =
     find (\<lambda>(p', s', g). if adv then length s' < length s else True) (rmatch fl r p s [])"

lemma match_at_length:
  assumes "match_at fl r adv p s = Some (p', s', g)"
  shows "length s' \<le> length s" and "adv \<Longrightarrow> length s' < length s"
proof -
  from assms have m: "(p', s', g) \<in> set (rmatch fl r p s [])"
    and c: "if adv then length s' < length s else True"
    by (auto simp: match_at_def find_Some_iff in_set_conv_nth)
  from m show "length s' \<le> length s" by (rule rmatch_length)
  from c show "adv \<Longrightarrow> length s' < length s" by simp
qed

datatype piece = Txt char | Hit rematch

text \<open>
  The scan shared by \<open>finditer\<close>, \<open>search\<close>, \<open>sub\<close> and \<open>split\<close>: the leftmost match from the
  current position, then on from its end. After an empty match the next match at the
  same position must consume text (\<open>adv\<close>).
\<close>

function scan :: "flag list \<Rightarrow> regex \<Rightarrow> bool \<Rightarrow> char option \<Rightarrow> string \<Rightarrow> piece list" where
  "scan fl r adv p s =
     (case match_at fl r adv p s of
        Some (p', s', g) \<Rightarrow>
          Hit \<lparr>whole = take (length s - length s') s, grps = g\<rparr>
            # scan fl r (length s' = length s) p' s'
      | None \<Rightarrow> (case s of [] \<Rightarrow> [] | c # cs \<Rightarrow> Txt c # scan fl r False (Some c) cs))"
  by pat_completeness auto
termination
proof (relation "measure (\<lambda>(fl, r, adv, p, s). 2 * length s + (if adv then 0 else 1))")
  show "wf (measure (\<lambda>(fl, r, adv, p, s). 2 * length s + (if adv then 0 else 1)))"
    by simp
next
  fix fl r adv p s x2 p' y s' g
  assume "match_at fl r adv p s = Some x2" "(p', y) = x2" "(s', g) = y"
  then have m: "match_at fl r adv p s = Some (p', s', g)" by simp
  from match_at_length[OF m]
  show "((fl, r, length s' = length s, p', s'), fl, r, adv, p, s)
        \<in> measure (\<lambda>(fl, r, adv, p, s). 2 * length s + (if adv then 0 else 1))"
    by (cases adv) auto
next
  fix fl r adv p s c cs
  assume "match_at fl r adv p s = None" "s = c # cs"
  then show "((fl, r, False, Some c, cs), fl, r, adv, p, s)
        \<in> measure (\<lambda>(fl, r, adv, p, s). 2 * length s + (if adv then 0 else 1))"
    by simp
qed

declare scan.simps [simp del]

definition re_finditer :: "flag list \<Rightarrow> regex \<Rightarrow> string \<Rightarrow> rematch list" where
  "re_finditer fl r s = concat (map (\<lambda>x. case x of Txt c \<Rightarrow> [] | Hit m \<Rightarrow> [m]) (scan fl r False None s))"

definition re_search :: "flag list \<Rightarrow> regex \<Rightarrow> string \<Rightarrow> rematch option" where
  "re_search fl r s = (case re_finditer fl r s of [] \<Rightarrow> None | m # _ \<Rightarrow> Some m)"

definition re_match :: "flag list \<Rightarrow> regex \<Rightarrow> string \<Rightarrow> rematch option" where
  "re_match fl r s =
     (case match_at fl r False None s of
        None \<Rightarrow> None
      | Some (p', s', g) \<Rightarrow> Some \<lparr>whole = take (length s - length s') s, grps = g\<rparr>)"

definition re_sub :: "flag list \<Rightarrow> regex \<Rightarrow> (rematch \<Rightarrow> string) \<Rightarrow> string \<Rightarrow> string" where
  "re_sub fl r repl s =
     concat (map (\<lambda>x. case x of Txt c \<Rightarrow> [c] | Hit m \<Rightarrow> repl m) (scan fl r False None s))"

text \<open>\<open>re.split\<close> for a pattern without groups, as both patterns the program splits on are.\<close>

fun split_pieces :: "piece list \<Rightarrow> string \<Rightarrow> string list" where
  "split_pieces [] cur = [cur]"
| "split_pieces (Txt c # ps) cur = split_pieces ps (cur @ [c])"
| "split_pieces (Hit m # ps) cur = cur # split_pieces ps []"

definition re_split :: "flag list \<Rightarrow> regex \<Rightarrow> string \<Rightarrow> string list" where
  "re_split fl r s = split_pieces (scan fl r False None s) []"

subsection \<open>Replacement templates\<close>

datatype tpiece = TLit string | TGrp nat

definition expand :: "tpiece list \<Rightarrow> rematch \<Rightarrow> string" where
  "expand t m = concat (map (\<lambda>x. case x of TLit w \<Rightarrow> w | TGrp n \<Rightarrow> group_or_empty m n) t)"


text \<open>
  A replacement given as a string is parsed as a template by \<open>re.sub\<close>, which raises on a
  malformed one. \<open>parse_template n\<close> follows \<open>re._parser.parse_template\<close> for a pattern with
  \<open>n\<close> groups, none of them named: a reference to a group the pattern does not have, an
  unknown escape of an ASCII letter and a trailing backslash are errors.
\<close>

datatype error = TemplateError

definition is_octal :: "char \<Rightarrow> bool" where
  "is_octal c \<longleftrightarrow> in_range 48 55 c"

definition is_ascii_digit :: "char \<Rightarrow> bool" where
  "is_ascii_digit c \<longleftrightarrow> in_range 48 57 c"

definition is_ascii_letter :: "char \<Rightarrow> bool" where
  "is_ascii_letter c \<longleftrightarrow> in_range 65 90 c \<or> in_range 97 122 c"

definition digit_val :: "char \<Rightarrow> nat" where
  "digit_val c = code_point c - 48"

definition number_of :: "nat \<Rightarrow> string \<Rightarrow> nat" where
  "number_of base ds = foldl (\<lambda>n d. base * n + digit_val d) 0 ds"

definition ESCAPES :: "(char \<times> char) list" where
  "ESCAPES =
     [(CHR ''a'', CHR 0x07), (CHR ''b'', CHR 0x08), (CHR ''f'', CHR 0x0C), (CHR ''n'', CHR 0x0A),
      (CHR ''r'', CHR 0x0D), (CHR ''t'', CHR 0x09), (CHR ''v'', CHR 0x0B), (CHR 0x5C, CHR 0x5C)]"

definition cons_piece :: "tpiece \<Rightarrow> error + tpiece list \<Rightarrow> error + tpiece list" where
  "cons_piece x r = (case r of Inl e \<Rightarrow> Inl e | Inr t \<Rightarrow> Inr (x # t))"

function parse_template :: "nat \<Rightarrow> string \<Rightarrow> error + tpiece list" where
  "parse_template n [] = Inr []"
| "parse_template n (c # cs) =
     (if c \<noteq> CHR 0x5C then cons_piece (TLit [c]) (parse_template n cs)
      else case cs of
        [] \<Rightarrow> Inl TemplateError
      | d # ds \<Rightarrow>
          if d = CHR ''g'' then
            (case ds of
               [] \<Rightarrow> Inl TemplateError
             | b # bs \<Rightarrow>
                 let name = takeWhile (\<lambda>x. x \<noteq> CHR ''>'') bs;
                     rest = dropWhile (\<lambda>x. x \<noteq> CHR ''>'') bs
                 in if b \<noteq> CHR ''<'' \<or> rest = [] \<or> name = [] \<or> \<not> list_all is_ascii_digit name
                       \<or> n < number_of 10 name
                    then Inl TemplateError
                    else cons_piece (TGrp (number_of 10 name)) (parse_template n (tl rest)))
          else if d = CHR ''0'' then
            (let oct = takeWhile is_octal (take 2 ds)
             in cons_piece (TLit [char_of (number_of 8 oct mod 256)])
                  (parse_template n (drop (length oct) ds)))
          else if is_ascii_digit d then
            (case ds of
               [] \<Rightarrow> if n < digit_val d then Inl TemplateError else cons_piece (TGrp (digit_val d)) (Inr [])
             | e # es \<Rightarrow>
                 if \<not> is_ascii_digit e then
                   (if n < digit_val d then Inl TemplateError
                    else cons_piece (TGrp (digit_val d)) (parse_template n ds))
                 else if is_octal d \<and> is_octal e \<and> es \<noteq> [] \<and> is_octal (hd es) then
                   (if 255 < number_of 8 [d, e, hd es] then Inl TemplateError
                    else cons_piece (TLit [char_of (number_of 8 [d, e, hd es])])
                           (parse_template n (tl es)))
                 else if n < number_of 10 [d, e] then Inl TemplateError
                 else cons_piece (TGrp (number_of 10 [d, e])) (parse_template n es))
          else (case map_of ESCAPES d of
                  Some x \<Rightarrow> cons_piece (TLit [x]) (parse_template n ds)
                | None \<Rightarrow>
                    if is_ascii_letter d then Inl TemplateError
                    else cons_piece (TLit [c, d]) (parse_template n ds)))"
  by pat_completeness auto
termination
proof (relation "measure (\<lambda>(n, s). length s)", goal_cases)
  case (3 n c cs d ds b bs name rest)
  have "length (tl (dropWhile (\<lambda>x. x \<noteq> CHR ''>'') bs)) \<le> length bs"
    using length_dropWhile_le[of "\<lambda>x. x \<noteq> CHR ''>''" bs] by simp
  with 3 show ?case by simp
qed auto

definition re_sub_template ::
    "flag list \<Rightarrow> regex \<Rightarrow> nat \<Rightarrow> string \<Rightarrow> string \<Rightarrow> error + string" where
  "re_sub_template fl r n repl s =
     (case parse_template n repl of
        Inl e \<Rightarrow> Inl e
      | Inr t \<Rightarrow> Inr (re_sub fl r (expand t) s))"

section \<open>Python string methods\<close>

fun lstrip :: "(char \<Rightarrow> bool) \<Rightarrow> string \<Rightarrow> string" where
  "lstrip P s = dropWhile P s"

definition rstrip :: "(char \<Rightarrow> bool) \<Rightarrow> string \<Rightarrow> string" where
  "rstrip P s = rev (dropWhile P (rev s))"

definition strip :: "string \<Rightarrow> string" where
  "strip s = rstrip is_space (lstrip is_space s)"

definition startswith :: "string \<Rightarrow> string \<Rightarrow> bool" where
  "startswith s w \<longleftrightarrow> take (length w) s = w"

fun contains :: "string \<Rightarrow> string \<Rightarrow> bool" where
  "contains [] w = (w = [])"
| "contains (c # cs) w = (startswith (c # cs) w \<or> contains cs w)"

function replace :: "string \<Rightarrow> string \<Rightarrow> string \<Rightarrow> string" where
  "replace s old new =
     (if old = [] then concat (map (\<lambda>c. new @ [c]) s) @ new
      else case s of
        [] \<Rightarrow> []
      | c # cs \<Rightarrow>
          if startswith s old then new @ replace (drop (length old) s) old new
          else c # replace cs old new)"
  by pat_completeness auto
termination
  by (relation "measure (\<lambda>(s, old, new). length s)") auto

declare replace.simps [simp del]

fun join :: "string \<Rightarrow> string list \<Rightarrow> string" where
  "join sep [] = []"
| "join sep [x] = x"
| "join sep (x # xs) = x @ sep @ join sep xs"

text \<open>A dict keeps the position of a key's first insertion and the value of its last.\<close>

fun dict_set :: "('k \<times> 'v) list \<Rightarrow> 'k \<Rightarrow> 'v \<Rightarrow> ('k \<times> 'v) list" where
  "dict_set [] k v = [(k, v)]"
| "dict_set ((k', v') # d) k v = (if k' = k then (k, v) # d else (k', v') # dict_set d k v)"

definition dict_of :: "('k \<times> 'v) list \<Rightarrow> ('k \<times> 'v) list" where
  "dict_of items = foldl (\<lambda>d (k, v). dict_set d k v) [] items"

section \<open>The SQL converter (\<open>sql_converter.py\<close>)\<close>

subsection \<open>Type mappings\<close>

definition ORACLE_TO_POSTGRES :: "(string \<times> string) list" where
  "ORACLE_TO_POSTGRES =
     [(''NUMBER'', ''NUMERIC''),
      (''NUMBER(10)'', ''INTEGER''),
      (''NUMBER(19)'', ''BIGINT''),
      (''NUMBER(10,2)'', ''DECIMAL(10,2)''),
      (''NUMBER(19,2)'', ''DECIMAL(19,2)''),
      (''NUMBER(38)'', ''NUMERIC''),
      (''BINARY_FLOAT'', ''REAL''),
      (''BINARY_DOUBLE'', ''DOUBLE PRECISION''),
      (''VARCHAR2'', ''VARCHAR''),
      (''NVARCHAR2'', ''VARCHAR''),
      (''CHAR'', ''CHAR''),
      (''NCHAR'', ''CHAR''),
      (''CLOB'', ''TEXT''),
      (''NCLOB'', ''TEXT''),
      (''LONG'', ''TEXT''),
      (''DATE'', ''TIMESTAMP''),
      (''TIMESTAMP'', ''TIMESTAMP''),
      (''TIMESTAMP WITH TIME ZONE'', ''TIMESTAMPTZ''),
      (''TIMESTAMP WITH LOCAL TIME ZONE'', ''TIMESTAMPTZ''),
      (''INTERVAL YEAR TO MONTH'', ''INTERVAL''),
      (''INTERVAL DAY TO SECOND'', ''INTERVAL''),
      (''BLOB'', ''BYTEA''),
      (''RAW'', ''BYTEA''),
      (''LONG RAW'', ''BYTEA''),
      (''NUMBER(1)'', ''BOOLEAN''),
      (''ROWID'', ''TEXT''),
      (''UROWID'', ''TEXT''),
      (''XMLTYPE'', ''XML'')]"

definition MYSQL_TO_POSTGRES :: "(string \<times> string) list" where
  "MYSQL_TO_POSTGRES =
     [(''TINYINT'', ''SMALLINT''),
      (''SMALLINT'', ''SMALLINT''),
      (''MEDIUMINT'', ''INTEGER''),
      (''INT'', ''INTEGER''),
      (''INTEGER'', ''INTEGER''),
      (''BIGINT'', ''BIGINT''),
      (''DECIMAL'', ''DECIMAL''),
      (''NUMERIC'', ''NUMERIC''),
      (''FLOAT'', ''REAL''),
      (''DOUBLE'', ''DOUBLE PRECISION''),
      (''DOUBLE PRECISION'', ''DOUBLE PRECISION''),
      (''VARCHAR'', ''VARCHAR''),
      (''CHAR'', ''CHAR''),
      (''TINYTEXT'', ''TEXT''),
      (''TEXT'', ''TEXT''),
      (''MEDIUMTEXT'', ''TEXT''),
      (''LONGTEXT'', ''TEXT''),
      (''ENUM'', ''VARCHAR(255)''),
      (''SET'', ''VARCHAR(255)''),
      (''DATE'', ''DATE''),
      (''DATETIME'', ''TIMESTAMP''),
      (''TIMESTAMP'', ''TIMESTAMP''),
      (''TIME'', ''TIME''),
      (''YEAR'', ''SMALLINT''),
      (''TINYBLOB'', ''BYTEA''),
      (''BLOB'', ''BYTEA''),
      (''MEDIUMBLOB'', ''BYTEA''),
      (''LONGBLOB'', ''BYTEA''),
      (''BINARY'', ''BYTEA''),
      (''VARBINARY'', ''BYTEA''),
      (''BOOL'', ''BOOLEAN''),
      (''BOOLEAN'', ''BOOLEAN''),
      (''JSON'', ''JSONB'')]"

definition type_mappings :: "(string \<times> (string \<times> string) list) list" where
  "type_mappings =
     [(''oracle_to_postgresql'', ORACLE_TO_POSTGRES),
      (''mysql_to_postgresql'', MYSQL_TO_POSTGRES)]"

subsection \<open>The rewrite stages of \<open>SQLConverter\<close>\<close>

abbreviation sp :: regex where "sp \<equiv> In [Cat_space]"
abbreviation wd :: regex where "wd \<equiv> In [Cat_word]"
abbreviation dg :: regex where "dg \<equiv> In [Cat_digit]"
abbreviation NL :: char where "NL \<equiv> CHR 0x0A"

text \<open>
  \<open>sorted(type_map.keys(), key=len, reverse=True)\<close>: a stable sort, which CPython runs
  on the reversed list and reverses again, so keys of one length keep the dict's order.
\<close>

definition sorted_types :: "(string \<times> string) list \<Rightarrow> string list" where
  "sorted_types type_map = rev (sort_key length (rev (map fst type_map)))"

text \<open>The pattern \<^verbatim>\<open>\b{re.escape(oracle_type)}\b(\([^)]+\))?\<close>.\<close>

definition type_pattern :: "string \<Rightarrow> regex" where
  "type_pattern oracle_type =
     seqs [WordB, Str oracle_type, WordB,
           Opt (Group 1 (seqs [Str ''('', Plus (NotIn [Ch CHR '')'']), Str '')'']))]"

definition convert_types :: "string \<Rightarrow> (string \<times> string) list \<Rightarrow> string" where
  "convert_types sql type_map =
     foldl (\<lambda>converted (oracle_type, pg_type).
              re_sub [IGNORECASE] (type_pattern oracle_type)
                (\<lambda>m. pg_type @ group_or_empty m 1) converted)
       sql
       (List.map_filter (\<lambda>t. map_option (Pair t) (map_of type_map t)) (sorted_types type_map))"

text \<open>
  \<open>_convert_oracle_syntax\<close> is a sequence of \<open>re.sub(pattern, replacement, converted,
  flags=re.IGNORECASE)\<close> statements; \<open>oracle_syntax_rules\<close> lists their patterns and
  replacements in the order of the source.
\<close>

definition oracle_syntax_rules :: "(regex \<times> tpiece list) list" where
  "oracle_syntax_rules =
     [(seqs [WordB, Str ''SYSDATE'', WordB], [TLit ''CURRENT_DATE'']),
      (seqs [WordB, Str ''SYSTIMESTAMP'', WordB], [TLit ''CURRENT_TIMESTAMP'']),
      (seqs [WordB, Str ''NVL'', Star sp, Str ''(''], [TLit ''COALESCE('']),
      (seqs [Plus sp, Str ''TABLESPACE'', Plus sp, Plus wd], [TLit []]),
      (seqs [Plus sp, Str ''STORAGE'', Star sp, Str ''('', Plus (NotIn [Ch CHR '')'']), Str '')''],
       [TLit []]),
      (seqs [Plus sp, Str ''PCTFREE'', Plus sp, Plus dg], [TLit []]),
      (seqs [Plus sp, Str ''PCTUSED'', Plus sp, Plus dg], [TLit []]),
      (seqs [Plus sp, Str ''INITRANS'', Plus sp, Plus dg], [TLit []]),
      (seqs [Plus sp, Str ''MAXTRANS'', Plus sp, Plus dg], [TLit []]),
      (seqs [WordB, Str ''VARCHAR2'', WordB], [TLit ''VARCHAR'']),
      (seqs [WordB, Str ''NUMBER(10)'', WordB], [TLit ''INTEGER'']),
      (seqs [WordB, Str ''NUMBER(19)'', WordB], [TLit ''BIGINT'']),
      (seqs [WordB, Str ''NUMBER(1)'', WordB], [TLit ''BOOLEAN'']),
      (seqs [WordB, Str ''NUMBER('', Group 1 (Plus dg), Str '','', Star sp, Group 2 (Plus dg),
             Str '')''],
       [TLit ''DECIMAL('', TGrp 1, TLit '','', TGrp 2, TLit '')'']),
      (seqs [WordB, Str ''NUMBER'', WordB], [TLit ''NUMERIC''])]"

definition convert_oracle_syntax :: "string \<Rightarrow> string" where
  "convert_oracle_syntax sql =
     foldl (\<lambda>converted (pattern, replacement).
              re_sub [IGNORECASE] pattern (expand replacement) converted)
       sql oracle_syntax_rules"

definition convert_sequences :: "string \<Rightarrow> string" where
  "convert_sequences sql =
     re_sub [IGNORECASE]
       (seqs [Group 1 (Plus wd), Plus sp, Alt (Str ''NUMBER'') (Str ''INTEGER''), Plus sp,
              Str ''DEFAULT'', Plus sp, Plus wd, Str ''.NEXTVAL''])
       (expand [TGrp 1, TLit '' SERIAL'']) sql"

text \<open>
  The new name is the replacement string of \<open>re.sub\<close>, so it is read as a template of a
  pattern without groups.
\<close>

definition replace_table_name :: "string \<Rightarrow> string \<Rightarrow> string \<Rightarrow> error + string" where
  "replace_table_name sql old_name new_name =
     re_sub_template [IGNORECASE] (seqs [WordB, Str old_name, WordB]) 0 new_name sql"

definition replace_column_name :: "string \<Rightarrow> string \<Rightarrow> string \<Rightarrow> string \<Rightarrow> error + string" where
  "replace_column_name sql table old_col new_col =
     re_sub_template [IGNORECASE] (seqs [WordB, Str old_col, WordB]) 0 new_col sql"

definition clean_sql :: "string \<Rightarrow> string" where
  "clean_sql sql =
     (let sql = re_sub [] (seqs [Str [NL], Star sp, Str [NL], Star sp, Str [NL]])
                  (expand [TLit [NL, NL]]) sql;
          sql = re_sub [MULTILINE] (seqs [Str '';'', Star sp, Eol]) (expand [TLit [CHR '';'', NL]]) sql
      in strip sql)"

subsection \<open>\<open>convert_schema\<close>\<close>

record SQLTransformation =
  original_table :: string
  new_table :: string
  column_mappings :: "(string \<times> string) list"
  type_conversions :: "(string \<times> string) list"
  dialect_conversion :: string

text \<open>
  \<open>errors\<close> holds one entry for each exception caught; the model keeps the exception
  in place of its message.
\<close>

record ConversionResult =
  success :: bool
  converted_sql :: string
  transformations :: "SQLTransformation list"
  tables_converted :: "string list"
  warnings :: "string list"
  errors :: "error list"

text \<open>
  The two renaming loops. \<open>Inl\<close> is an exception leaving the loop, with the result as the
  loop had updated it by then; \<open>Inr\<close> is the loop's end.
\<close>

fun apply_table_mappings ::
    "string \<Rightarrow> (string \<times> string) list \<Rightarrow> string \<times> ConversionResult
       \<Rightarrow> error \<times> ConversionResult + string \<times> ConversionResult" where
  "apply_table_mappings type_key [] (converted, result) = Inr (converted, result)"
| "apply_table_mappings type_key ((old_table, new_name) # rest) (converted, result) =
     (case replace_table_name converted old_table new_name of
        Inl e \<Rightarrow> Inl (e, result)
      | Inr converted' \<Rightarrow>
          apply_table_mappings type_key rest
            (converted',
             result\<lparr>transformations := transformations result @
                        [\<lparr>original_table = old_table, new_table = new_name, column_mappings = [],
                          type_conversions = [], dialect_conversion = type_key\<rparr>],
                    tables_converted := tables_converted result @ [old_table @ '' -> '' @ new_name]\<rparr>))"

definition update_transformation ::
    "string \<Rightarrow> string \<Rightarrow> string \<Rightarrow> SQLTransformation \<Rightarrow> SQLTransformation" where
  "update_transformation table old_col new_col t =
     (if original_table t = table
      then t\<lparr>column_mappings := dict_set (column_mappings t) old_col new_col\<rparr> else t)"

fun apply_cols ::
    "string \<Rightarrow> (string \<times> string) list \<Rightarrow> string \<times> ConversionResult
       \<Rightarrow> error \<times> ConversionResult + string \<times> ConversionResult" where
  "apply_cols table [] (converted, result) = Inr (converted, result)"
| "apply_cols table ((old_col, new_col) # rest) (converted, result) =
     (case replace_column_name converted table old_col new_col of
        Inl e \<Rightarrow> Inl (e, result)
      | Inr converted' \<Rightarrow>
          apply_cols table rest
            (converted',
             result\<lparr>transformations :=
                      map (update_transformation table old_col new_col) (transformations result)\<rparr>))"

fun apply_column_mappings ::
    "(string \<times> (string \<times> string) list) list \<Rightarrow> string \<times> ConversionResult
       \<Rightarrow> error \<times> ConversionResult + string \<times> ConversionResult" where
  "apply_column_mappings [] st = Inr st"
| "apply_column_mappings ((table, cols) # rest) st =
     (case apply_cols table cols st of
        Inl x \<Rightarrow> Inl x
      | Inr st' \<Rightarrow> apply_column_mappings rest st')"

definition convert_schema ::
    "string \<Rightarrow> (string \<times> string) list \<Rightarrow> (string \<times> (string \<times> string) list) list
       \<Rightarrow> string \<Rightarrow> string \<Rightarrow> ConversionResult" where
  "convert_schema original_sql table_mappings col_mappings source_dialect target_dialect =
     (let result = \<lparr>success = False, converted_sql = [], transformations = [],
                     tables_converted = [], warnings = [], errors = []\<rparr>;
          converted = original_sql;
          type_key = source_dialect @ ''_to_'' @ target_dialect;
          converted = (case map_of type_mappings type_key of
                         Some type_map \<Rightarrow> convert_types converted type_map
                       | None \<Rightarrow> converted);
          converted = (if source_dialect = ''oracle'' then convert_oracle_syntax converted
                       else converted)
      in case apply_table_mappings type_key table_mappings (converted, result) of
           Inl (e, result) \<Rightarrow> result\<lparr>errors := errors result @ [e]\<rparr>
         | Inr st \<Rightarrow>
             (case apply_column_mappings col_mappings st of
                Inl (e, result) \<Rightarrow> result\<lparr>errors := errors result @ [e]\<rparr>
              | Inr (converted, result) \<Rightarrow>
                  (let converted =
                         (if source_dialect = ''oracle'' \<and> target_dialect = ''postgresql''
                          then convert_sequences converted else converted);
                       converted = clean_sql converted
                   in result\<lparr>success := True, converted_sql := converted\<rparr>)))"

subsection \<open>The DDL parser\<close>

text \<open>
  A column is the dict built by \<open>_parse_columns\<close> (keys \<open>name\<close>, \<open>type\<close>, \<open>nullable\<close>,
  \<open>primary_key\<close>, \<open>unique\<close>, \<open>default\<close>), a foreign key the dict built by
  \<open>parse_create_table\<close>, and \<open>SQLTable\<close> the dataclass of \<open>models.py\<close>.
\<close>

record column =
  col_name :: string
  col_type :: string
  col_nullable :: bool
  col_primary_key :: bool
  col_unique :: bool
  col_default :: "string option"

record foreign_key =
  fk_column :: string
  references_table :: string
  references_column :: string

record SQLTable =
  name :: string
  columns :: "column list"
  primary_key :: string
  foreign_keys :: "foreign_key list"
  indexes :: "string list"
  original_sql :: string
  dialect :: string

text \<open>\<^verbatim>\<open>DEFAULT\s+([^,\s]+(?:\([^)]*\))?)\<close>\<close>

definition default_re :: regex where
  "default_re =
     seqs [Str ''DEFAULT'', Plus sp,
           Group 1 (Seq (Plus (NotIn [Ch CHR '','', Cat_space]))
                        (Opt (seqs [Str ''('', Star (NotIn [Ch CHR '')'']), Str '')''])))]"

definition extract_default :: "string \<Rightarrow> string option" where
  "extract_default attrs =
     (case re_search [IGNORECASE] default_re attrs of
        Some m \<Rightarrow> Some (group_or_empty m 1)
      | None \<Rightarrow> None)"

text \<open>\<^verbatim>\<open>,(?![^()]*\))\<close>: a comma that no closing parenthesis follows before the next
  parenthesis.\<close>

definition comma_re :: regex where
  "comma_re =
     Seq (Str '','') (NotAhead (Seq (Star (NotIn [Ch CHR ''('', Ch CHR '')''])) (Str '')'')))"

text \<open>\<^verbatim>\<open>^\s*(PRIMARY|FOREIGN|UNIQUE|CHECK|CONSTRAINT)\<close>\<close>

definition constraint_re :: regex where
  "constraint_re =
     seqs [Bol, Star sp,
           Group 1 (alts [Str ''PRIMARY'', Str ''FOREIGN'', Str ''UNIQUE'', Str ''CHECK'',
                          Str ''CONSTRAINT''])]"

text \<open>\<^verbatim>\<open>(\w+)\s+(\w+(?:\([^)]+\))?)\s*(.*)\<close>\<close>

definition column_re :: regex where
  "column_re =
     seqs [Group 1 (Plus wd), Plus sp,
           Group 2 (Seq (Plus wd) (Opt (seqs [Str ''('', Plus (NotIn [Ch CHR '')'']), Str '')'']))),
           Star sp, Group 3 (Star Dot)]"

text \<open>The body of the loop over the parts of a table body: the column of a part, if any.\<close>

definition parse_column :: "string \<Rightarrow> column option" where
  "parse_column part0 =
     (let part = strip part0
      in if part = [] then None
         else if re_match [IGNORECASE] constraint_re part \<noteq> None then None
         else case re_match [IGNORECASE] column_re part of
           None \<Rightarrow> None
         | Some col_match \<Rightarrow>
             (let cname = group_or_empty col_match 1;
                  ctype = group_or_empty col_match 2;
                  col_attrs = group_or_empty col_match 3
              in Some \<lparr>col_name = cname,
                       col_type = ctype,
                       col_nullable = (\<not> contains (upper col_attrs) ''NOT NULL''),
                       col_primary_key = contains (upper col_attrs) ''PRIMARY KEY'',
                       col_unique = contains (upper col_attrs) ''UNIQUE'',
                       col_default = extract_default col_attrs\<rparr>))"

definition parse_columns :: "string \<Rightarrow> column list" where
  "parse_columns columns_str = List.map_filter parse_column (re_split [] comma_re columns_str)"

text \<open>\<^verbatim>\<open>CREATE\s+TABLE\s+(?:IF\s+NOT\s+EXISTS\s+)?(\w+)\s*\(([^;]+)\)\<close>\<close>

definition create_table_re :: regex where
  "create_table_re =
     seqs [Str ''CREATE'', Plus sp, Str ''TABLE'', Plus sp,
           Opt (seqs [Str ''IF'', Plus sp, Str ''NOT'', Plus sp, Str ''EXISTS'', Plus sp]),
           Group 1 (Plus wd), Star sp, Str ''('', Group 2 (Plus (NotIn [Ch CHR '';''])), Str '')'']"

text \<open>\<^verbatim>\<open>PRIMARY\s+KEY\s*\((\w+)\)\<close>\<close>

definition primary_key_re :: regex where
  "primary_key_re =
     seqs [Str ''PRIMARY'', Plus sp, Str ''KEY'', Star sp, Str ''('', Group 1 (Plus wd), Str '')'']"

text \<open>\<^verbatim>\<open>FOREIGN\s+KEY\s*\((\w+)\)\s*REFERENCES\s+(\w+)\s*\((\w+)\)\<close>\<close>

definition foreign_key_re :: regex where
  "foreign_key_re =
     seqs [Str ''FOREIGN'', Plus sp, Str ''KEY'', Star sp, Str ''('', Group 1 (Plus wd), Str '')'',
           Star sp, Str ''REFERENCES'', Plus sp, Group 2 (Plus wd), Star sp,
           Str ''('', Group 3 (Plus wd), Str '')'']"

text \<open>The body of the loop over the matches of \<open>CREATE TABLE\<close>: the table of one match.\<close>

definition table_of_match :: "rematch \<Rightarrow> SQLTable" where
  "table_of_match m =
     (let table_name = group_or_empty m 1;
          columns_str = group_or_empty m 2;
          cols = parse_columns columns_str
      in \<lparr>name = table_name,
          columns = cols,
          primary_key =
            (case re_search [IGNORECASE] primary_key_re columns_str of
               Some pk_match \<Rightarrow> group_or_empty pk_match 1
             | None \<Rightarrow>
                 (case find col_primary_key cols of
                    Some col \<Rightarrow> col_name col
                  | None \<Rightarrow> [])),
          foreign_keys =
            map (\<lambda>fk. \<lparr>fk_column = group_or_empty fk 1,
                        references_table = group_or_empty fk 2,
                        references_column = group_or_empty fk 3\<rparr>)
              (re_finditer [IGNORECASE] foreign_key_re columns_str),
          indexes = [],
          original_sql = whole m,
          dialect = ''postgresql''\<rparr>)"

definition parse_create_table :: "string \<Rightarrow> SQLTable list" where
  "parse_create_table sql =
     map table_of_match (re_finditer [IGNORECASE, DOTALL] create_table_re sql)"

subsection \<open>The migration diff\<close>

text \<open>\<open>{t.name.lower(): t for t in tables}\<close>\<close>

definition table_index :: "SQLTable list \<Rightarrow> (string \<times> SQLTable) list" where
  "table_index tables = dict_of (map (\<lambda>t. (lower (name t), t)) tables)"

definition generate_migration_lines :: "SQLTable list \<Rightarrow> SQLTable list \<Rightarrow> string list" where
  "generate_migration_lines from_tables to_tables =
     (let from_dict = table_index from_tables;
          to_dict = table_index to_tables
      in [''-- Migration Script'', ''-- Generated by ReferenceGenerator SQLConverter'', []]
         @ concat (map (\<lambda>(nm, table).
                          if nm \<notin> fst ` set from_dict
                          then [''-- Create new table: '' @ name table, original_sql table, []]
                          else [])
                     to_dict)
         @ concat (map (\<lambda>(nm, table).
                          if nm \<notin> fst ` set to_dict
                          then [''-- Drop table: '' @ name table,
                                ''DROP TABLE IF EXISTS '' @ name table @ '' CASCADE;'', []]
                          else [])
                     from_dict))"

definition generate_migration :: "SQLTable list \<Rightarrow> SQLTable list \<Rightarrow> string" where
  "generate_migration from_tables to_tables =
     join [NL] (generate_migration_lines from_tables to_tables)"

section \<open>The stored-procedure converter\<close>

record parameter =
  p_name :: string
  direction :: string
  oracle_type :: string
  python_type :: string

definition convert_procedure_name :: "string \<Rightarrow> (string \<times> string) list \<Rightarrow> string" where
  "convert_procedure_name proc_name entity_mapping =
     (let nm = proc_name;
          nm = (if startswith (upper nm) ''SP_'' then drop 3 nm else nm);
          nm = lstrip (\<lambda>c. c = CHR ''_'')
                 (lower (re_sub [] (Group 1 (In [Rng CHR ''A'' CHR ''Z'']))
                           (expand [TLit ''_'', TGrp 1]) nm))
      in foldl (\<lambda>nm (old, new). replace nm (lower old) (lower new)) nm entity_mapping)"

definition oracle_type_to_python :: "string \<Rightarrow> string" where
  "oracle_type_to_python otype =
     (let type_upper = upper otype
      in if contains type_upper ''NUMBER'' \<or> contains type_upper ''INT'' then ''int''
         else if contains type_upper ''VARCHAR'' \<or> contains type_upper ''CHAR'' then ''str''
         else if contains type_upper ''DATE'' \<or> contains type_upper ''TIMESTAMP'' then ''datetime''
         else if contains type_upper ''CLOB'' \<or> contains type_upper ''BLOB'' then ''bytes''
         else if contains type_upper ''CURSOR'' then ''list[dict[str, Any]]''
         else if contains type_upper ''BOOLEAN'' then ''bool''
         else ''Any'')"

text \<open>\<^verbatim>\<open>(\w+)\s+(IN(?:\s+OUT)?|OUT)?\s*(\w+(?:\([^)]+\))?)\<close>\<close>

definition parameter_re :: regex where
  "parameter_re =
     seqs [Group 1 (Plus wd), Plus sp,
           Opt (Group 2 (Alt (Seq (Str ''IN'') (Opt (Seq (Plus sp) (Str ''OUT'')))) (Str ''OUT''))),
           Star sp,
           Group 3 (Seq (Plus wd) (Opt (seqs [Str ''('', Plus (NotIn [Ch CHR '')'']), Str '')''])))]"

text \<open>The body of the loop over the parts of a parameter list.\<close>

definition parse_parameter :: "(string \<times> string) list \<Rightarrow> string \<Rightarrow> parameter option" where
  "parse_parameter entity_mapping part0 =
     (let part = strip part0
      in if part = [] then None
         else case re_match [IGNORECASE] parameter_re part of
           None \<Rightarrow> None
         | Some m \<Rightarrow>
             (let param_name = group_or_empty m 1;
                  dir = replace (upper (case group m 2 of
                                          None \<Rightarrow> ''IN''
                                        | Some d \<Rightarrow> if d = [] then ''IN'' else d)) '' '' [];
                  otype = group_or_empty m 3;
                  py_name = lower param_name;
                  py_name = (if startswith py_name ''p_'' then drop 2 py_name else py_name);
                  py_name = foldl (\<lambda>nm (old, new). replace nm (lower old) (lower new))
                              py_name entity_mapping
              in Some \<lparr>p_name = py_name, direction = dir, oracle_type = otype,
                       python_type = oracle_type_to_python otype\<rparr>))"

definition parse_parameters :: "string \<Rightarrow> (string \<times> string) list \<Rightarrow> parameter list" where
  "parse_parameters params_str entity_mapping =
     (if strip params_str = [] then []
      else List.map_filter (parse_parameter entity_mapping) (re_split [] comma_re params_str))"

definition generate_docstring :: "string \<Rightarrow> parameter list \<Rightarrow> parameter list \<Rightarrow> string" where
  "generate_docstring proc_name in_params out_params =
     (let parts =
            (if in_params \<noteq> []
             then ''Args:'' # map (\<lambda>p. ''            '' @ p_name p @ '': '' @ python_type p) in_params
             else [])
            @ (case out_params of
                 [] \<Rightarrow> []
               | [p] \<Rightarrow> [''        Returns:'', ''            '' @ python_type p]
               | _ \<Rightarrow> [''        Returns:'',
                       ''            dict with: '' @ join '', '' (map p_name out_params)])
      in if parts \<noteq> [] then join [NL] parts else ''Converted from '' @ proc_name @ ''.'')"

text \<open>\<^verbatim>\<open>CREATE\s+(?:OR\s+REPLACE\s+)?PROCEDURE\s+(\w+)\s*\(([^)]*)\)\<close>\<close>

definition procedure_re :: regex where
  "procedure_re =
     seqs [Str ''CREATE'', Plus sp, Opt (seqs [Str ''OR'', Plus sp, Str ''REPLACE'', Plus sp]),
           Str ''PROCEDURE'', Plus sp, Group 1 (Plus wd), Star sp,
           Str ''('', Group 2 (Star (NotIn [Ch CHR '')''])), Str '')'']"

definition in_params_of :: "parameter list \<Rightarrow> parameter list" where
  "in_params_of params = filter (\<lambda>p. direction p \<in> {''IN'', ''INOUT''}) params"

definition out_params_of :: "parameter list \<Rightarrow> parameter list" where
  "out_params_of params = filter (\<lambda>p. direction p \<in> {''OUT'', ''INOUT''}) params"

definition return_type_of :: "parameter list \<Rightarrow> string" where
  "return_type_of out_params =
     (if length out_params = 0 then ''None''
      else if length out_params = 1 then python_type (hd out_params)
      else ''dict[str, Any]'')"

definition convert_to_python_lines :: "string \<Rightarrow> (string \<times> string) list \<Rightarrow> string list option" where
  "convert_to_python_lines procedure_sql entity_mapping =
     (case re_match [IGNORECASE] procedure_re procedure_sql of
        None \<Rightarrow> None
      | Some proc_match \<Rightarrow>
          (let proc_name = group_or_empty proc_match 1;
               params_str = group_or_empty proc_match 2;
               method_name = convert_procedure_name proc_name entity_mapping;
               params = parse_parameters params_str entity_mapping;
               in_params = in_params_of params;
               out_params = out_params_of params;
               param_str = join '', '' (map (\<lambda>p. p_name p @ '': '' @ python_type p) in_params);
               return_type = return_type_of out_params
           in Some ([''    async def '' @ method_name @ ''('',
                     ''        self,'']
                    @ (if param_str \<noteq> [] then [''        '' @ param_str @ '',''] else [])
                    @ [''    ) -> '' @ return_type @ '':'',
                       ''        '' @ [CHR 0x22, CHR 0x22, CHR 0x22],
                       ''        '' @ generate_docstring proc_name in_params out_params,
                       ''        Replaces Oracle '' @ proc_name @ '' procedure.'',
                       ''        '' @ [CHR 0x22, CHR 0x22, CHR 0x22],
                       ''        # TODO: Implement business logic'',
                       ''        pass''])))"

definition convert_to_python :: "string \<Rightarrow> (string \<times> string) list \<Rightarrow> string" where
  "convert_to_python procedure_sql entity_mapping =
     (case convert_to_python_lines procedure_sql entity_mapping of
        None \<Rightarrow> ''# Could not parse procedure''
      | Some lines \<Rightarrow> join [NL] lines)"

section \<open>Evaluating the program on concrete texts\<close>

text \<open>
  The rewrite rules that run the definitions above on a concrete text, and the
  congruence rules that keep a branch or a body unevaluated until its condition or its
  argument is known.
\<close>

lemma upper_range_simps:
  "\<not> item_ok [] (CHR 0x09) (Rng CHR ''A'' CHR ''Z'')" "\<not> item_ok [] (CHR 0x0A) (Rng CHR ''A'' CHR ''Z'')"
  "\<not> item_ok [] (CHR 0x0D) (Rng CHR ''A'' CHR ''Z'')" "\<not> item_ok [] (CHR '' '') (Rng CHR ''A'' CHR ''Z'')"
  "\<not> item_ok [] (CHR ''!'') (Rng CHR ''A'' CHR ''Z'')" "\<not> item_ok [] (CHR 0x22) (Rng CHR ''A'' CHR ''Z'')"
  "\<not> item_ok [] (CHR ''#'') (Rng CHR ''A'' CHR ''Z'')" "\<not> item_ok [] (CHR ''$'') (Rng CHR ''A'' CHR ''Z'')"
  "\<not> item_ok [] (CHR ''%'') (Rng CHR ''A'' CHR ''Z'')" "\<not> item_ok [] (CHR ''&'') (Rng CHR ''A'' CHR ''Z'')"
  "\<not> item_ok [] (CHR 0x27) (Rng CHR ''A'' CHR ''Z'')" "\<not> item_ok [] (CHR ''('') (Rng CHR ''A'' CHR ''Z'')"
  "\<not> item_ok [] (CHR '')'') (Rng CHR ''A'' CHR ''Z'')" "\<not> item_ok [] (CHR ''*'') (Rng CHR ''A'' CHR ''Z'')"
  "\<not> item_ok [] (CHR ''+'') (Rng CHR ''A'' CHR ''Z'')" "\<not> item_ok [] (CHR '','') (Rng CHR ''A'' CHR ''Z'')"
  "\<not> item_ok [] (CHR ''-'') (Rng CHR ''A'' CHR ''Z'')" "\<not> item_ok [] (CHR ''.'') (Rng CHR ''A'' CHR ''Z'')"
  "\<not> item_ok [] (CHR ''/'') (Rng CHR ''A'' CHR ''Z'')" "\<not> item_ok [] (CHR ''0'') (Rng CHR ''A'' CHR ''Z'')"
  "\<not> item_ok [] (CHR ''1'') (Rng CHR ''A'' CHR ''Z'')" "\<not> item_ok [] (CHR ''2'') (Rng CHR ''A'' CHR ''Z'')"
  "\<not> item_ok [] (CHR ''3'') (Rng CHR ''A'' CHR ''Z'')" "\<not> item_ok [] (CHR ''4'') (Rng CHR ''A'' CHR ''Z'')"
  "\<not> item_ok [] (CHR ''5'') (Rng CHR ''A'' CHR ''Z'')" "\<not> item_ok [] (CHR ''6'') (Rng CHR ''A'' CHR ''Z'')"
  "\<not> item_ok [] (CHR ''7'') (Rng CHR ''A'' CHR ''Z'')" "\<not> item_ok [] (CHR ''8'') (Rng CHR ''A'' CHR ''Z'')"
  "\<not> item_ok [] (CHR ''9'') (Rng CHR ''A'' CHR ''Z'')" "\<not> item_ok [] (CHR '':'') (Rng CHR ''A'' CHR ''Z'')"
  "\<not> item_ok [] (CHR '';'') (Rng CHR ''A'' CHR ''Z'')" "\<not> item_ok [] (CHR ''<'') (Rng CHR ''A'' CHR ''Z'')"
  "\<not> item_ok [] (CHR ''='') (Rng CHR ''A'' CHR ''Z'')" "\<not> item_ok [] (CHR ''>'') (Rng CHR ''A'' CHR ''Z'')"
  "\<not> item_ok [] (CHR ''?'') (Rng CHR ''A'' CHR ''Z'')" "\<not> item_ok [] (CHR ''@'') (Rng CHR ''A'' CHR ''Z'')"
  "item_ok [] (CHR ''A'') (Rng CHR ''A'' CHR ''Z'')" "item_ok [] (CHR ''B'') (Rng CHR ''A'' CHR ''Z'')"
  "item_ok [] (CHR ''C'') (Rng CHR ''A'' CHR ''Z'')" "item_ok [] (CHR ''D'') (Rng CHR ''A'' CHR ''Z'')"
  "item_ok [] (CHR ''E'') (Rng CHR ''A'' CHR ''Z'')" "item_ok [] (CHR ''F'') (Rng CHR ''A'' CHR ''Z'')"
  "item_ok [] (CHR ''G'') (Rng CHR ''A'' CHR ''Z'')" "item_ok [] (CHR ''H'') (Rng CHR ''A'' CHR ''Z'')"
  "item_ok [] (CHR ''I'') (Rng CHR ''A'' CHR ''Z'')" "item_ok [] (CHR ''J'') (Rng CHR ''A'' CHR ''Z'')"
  "item_ok [] (CHR ''K'') (Rng CHR ''A'' CHR ''Z'')" "item_ok [] (CHR ''L'') (Rng CHR ''A'' CHR ''Z'')"
  "item_ok [] (CHR ''M'') (Rng CHR ''A'' CHR ''Z'')" "item_ok [] (CHR ''N'') (Rng CHR ''A'' CHR ''Z'')"
  "item_ok [] (CHR ''O'') (Rng CHR ''A'' CHR ''Z'')" "item_ok [] (CHR ''P'') (Rng CHR ''A'' CHR ''Z'')"
  "item_ok [] (CHR ''Q'') (Rng CHR ''A'' CHR ''Z'')" "item_ok [] (CHR ''R'') (Rng CHR ''A'' CHR ''Z'')"
  "item_ok [] (CHR ''S'') (Rng CHR ''A'' CHR ''Z'')" "item_ok [] (CHR ''T'') (Rng CHR ''A'' CHR ''Z'')"
  "item_ok [] (CHR ''U'') (Rng CHR ''A'' CHR ''Z'')" "item_ok [] (CHR ''V'') (Rng CHR ''A'' CHR ''Z'')"
  "item_ok [] (CHR ''W'') (Rng CHR ''A'' CHR ''Z'')" "item_ok [] (CHR ''X'') (Rng CHR ''A'' CHR ''Z'')"
  "item_ok [] (CHR ''Y'') (Rng CHR ''A'' CHR ''Z'')" "item_ok [] (CHR ''Z'') (Rng CHR ''A'' CHR ''Z'')"
  "\<not> item_ok [] (CHR ''['') (Rng CHR ''A'' CHR ''Z'')" "\<not> item_ok [] (CHR 0x5C) (Rng CHR ''A'' CHR ''Z'')"
  "\<not> item_ok [] (CHR '']'') (Rng CHR ''A'' CHR ''Z'')" "\<not> item_ok [] (CHR ''^'') (Rng CHR ''A'' CHR ''Z'')"
  "\<not> item_ok [] (CHR ''_'') (Rng CHR ''A'' CHR ''Z'')" "\<not> item_ok [] (CHR ''`'') (Rng CHR ''A'' CHR ''Z'')"
  "\<not> item_ok [] (CHR ''a'') (Rng CHR ''A'' CHR ''Z'')" "\<not> item_ok [] (CHR ''b'') (Rng CHR ''A'' CHR ''Z'')"
  "\<not> item_ok [] (CHR ''c'') (Rng CHR ''A'' CHR ''Z'')" "\<not> item_ok [] (CHR ''d'') (Rng CHR ''A'' CHR ''Z'')"
  "\<not> item_ok [] (CHR ''e'') (Rng CHR ''A'' CHR ''Z'')" "\<not> item_ok [] (CHR ''f'') (Rng CHR ''A'' CHR ''Z'')"
  "\<not> item_ok [] (CHR ''g'') (Rng CHR ''A'' CHR ''Z'')" "\<not> item_ok [] (CHR ''h'') (Rng CHR ''A'' CHR ''Z'')"
  "\<not> item_ok [] (CHR ''i'') (Rng CHR ''A'' CHR ''Z'')" "\<not> item_ok [] (CHR ''j'') (Rng CHR ''A'' CHR ''Z'')"
  "\<not> item_ok [] (CHR ''k'') (Rng CHR ''A'' CHR ''Z'')" "\<not> item_ok [] (CHR ''l'') (Rng CHR ''A'' CHR ''Z'')"
  "\<not> item_ok [] (CHR ''m'') (Rng CHR ''A'' CHR ''Z'')" "\<not> item_ok [] (CHR ''n'') (Rng CHR ''A'' CHR ''Z'')"
  "\<not> item_ok [] (CHR ''o'') (Rng CHR ''A'' CHR ''Z'')" "\<not> item_ok [] (CHR ''p'') (Rng CHR ''A'' CHR ''Z'')"
  "\<not> item_ok [] (CHR ''q'') (Rng CHR ''A'' CHR ''Z'')" "\<not> item_ok [] (CHR ''r'') (Rng CHR ''A'' CHR ''Z'')"
  "\<not> item_ok [] (CHR ''s'') (Rng CHR ''A'' CHR ''Z'')" "\<not> item_ok [] (CHR ''t'') (Rng CHR ''A'' CHR ''Z'')"
  "\<not> item_ok [] (CHR ''u'') (Rng CHR ''A'' CHR ''Z'')" "\<not> item_ok [] (CHR ''v'') (Rng CHR ''A'' CHR ''Z'')"
  "\<not> item_ok [] (CHR ''w'') (Rng CHR ''A'' CHR ''Z'')" "\<not> item_ok [] (CHR ''x'') (Rng CHR ''A'' CHR ''Z'')"
  "\<not> item_ok [] (CHR ''y'') (Rng CHR ''A'' CHR ''Z'')" "\<not> item_ok [] (CHR ''z'') (Rng CHR ''A'' CHR ''Z'')"
  "\<not> item_ok [] (CHR ''{'') (Rng CHR ''A'' CHR ''Z'')" "\<not> item_ok [] (CHR ''|'') (Rng CHR ''A'' CHR ''Z'')"
  "\<not> item_ok [] (CHR ''}'') (Rng CHR ''A'' CHR ''Z'')" "\<not> item_ok [] (CHR ''~'') (Rng CHR ''A'' CHR ''Z'')"
  by (simp_all add: code_point_def)

lemmas eval_congs = if_weak_cong let_weak_cong option.case_cong_weak list.case_cong_weak
  prod.case_cong_weak sum.case_cong_weak piece.case_cong_weak tpiece.case_cong_weak

lemmas hol_rules =
  if_True if_False simp_thms list.case option.case prod.case sum.case piece.case tpiece.case
  list.map concat.simps append.simps find.simps list.set insert_iff empty_iff
  image_insert image_empty bex_simps
  flag.distinct cset.distinct list.distinct option.distinct sum.distinct nat.distinct
  list.inject option.inject char.inject prod.inject nat.inject sum.inject
  length_Cons list.size(3) take_Cons' take.simps(1) drop_Cons' drop.simps(1)
  diff_Suc_Suc Suc_less_eq zero_less_Suc not_less_zero minus_nat.diff_0 diff_zero
  One_nat_def numeral_2_eq_2 numeral_3_eq_3
  map_of.simps fun_upd_apply fst_conv snd_conv foldl.simps Let_def rev.simps
  dropWhile.simps takeWhile.simps filter.simps List.map_filter_simps map_option_case
  list.sel

lemmas re_rules =
  Plus_def seqs.simps alts.simps chr_eq_def item_ok.simps(1,3,4,5) upper_range_simps
  in_set_def lit_match.simps
  word_before_def word_after_def rmatch.simps rematch.simps group_def group_or_empty_def
  match_at_def scan.simps re_finditer_def re_search_def re_match_def re_sub_def
  split_pieces.simps re_split_def expand_def char_tabs

lemmas str_rules =
  lower_def upper_def lstrip.simps rstrip_def strip_def startswith_def contains.simps
  replace.simps join.simps dict_set.simps dict_of_def

lemmas record_rules =
  column.simps foreign_key.simps SQLTable.simps parameter.simps SQLTransformation.simps
  ConversionResult.simps

lemmas eval_rules = hol_rules re_rules str_rules record_rules

text \<open>The order in which \<open>_convert_types\<close> tries the Oracle types, and each with its target.\<close>

lemma sorted_types_ORACLE:
  "sorted_types ORACLE_TO_POSTGRES =
     [''TIMESTAMP WITH LOCAL TIME ZONE'', ''TIMESTAMP WITH TIME ZONE'',
      ''INTERVAL YEAR TO MONTH'', ''INTERVAL DAY TO SECOND'', ''BINARY_DOUBLE'',
      ''NUMBER(10,2)'', ''NUMBER(19,2)'', ''BINARY_FLOAT'', ''NUMBER(10)'',
      ''NUMBER(19)'', ''NUMBER(38)'', ''NVARCHAR2'', ''TIMESTAMP'',
      ''NUMBER(1)'', ''VARCHAR2'', ''LONG RAW'', ''XMLTYPE'', ''NUMBER'',
      ''UROWID'', ''NCHAR'', ''NCLOB'', ''ROWID'', ''CHAR'', ''CLOB'', ''LONG'',
      ''DATE'', ''BLOB'', ''RAW'']"
  by (simp add: sorted_types_def ORACLE_TO_POSTGRES_def)

definition oracle_rules :: "(string \<times> string) list" where
  "oracle_rules =
     [(''TIMESTAMP WITH LOCAL TIME ZONE'', ''TIMESTAMPTZ''),
      (''TIMESTAMP WITH TIME ZONE'', ''TIMESTAMPTZ''),
      (''INTERVAL YEAR TO MONTH'', ''INTERVAL''),
      (''INTERVAL DAY TO SECOND'', ''INTERVAL''),
      (''BINARY_DOUBLE'', ''DOUBLE PRECISION''),
      (''NUMBER(10,2)'', ''DECIMAL(10,2)''),
      (''NUMBER(19,2)'', ''DECIMAL(19,2)''),
      (''BINARY_FLOAT'', ''REAL''),
      (''NUMBER(10)'', ''INTEGER''),
      (''NUMBER(19)'', ''BIGINT''),
      (''NUMBER(38)'', ''NUMERIC''),
      (''NVARCHAR2'', ''VARCHAR''),
      (''TIMESTAMP'', ''TIMESTAMP''),
      (''NUMBER(1)'', ''BOOLEAN''),
      (''VARCHAR2'', ''VARCHAR''),
      (''LONG RAW'', ''BYTEA''),
      (''XMLTYPE'', ''XML''),
      (''NUMBER'', ''NUMERIC''),
      (''UROWID'', ''TEXT''),
      (''NCHAR'', ''CHAR''),
      (''NCLOB'', ''TEXT''),
      (''ROWID'', ''TEXT''),
      (''CHAR'', ''CHAR''),
      (''CLOB'', ''TEXT''),
      (''LONG'', ''TEXT''),
      (''DATE'', ''TIMESTAMP''),
      (''BLOB'', ''BYTEA''),
      (''RAW'', ''BYTEA'')]"

definition apply_rules :: "(string \<times> string) list \<Rightarrow> string \<Rightarrow> string" where
  "apply_rules rules sql =
     foldl (\<lambda>converted (oracle_type, pg_type).
              re_sub [IGNORECASE] (type_pattern oracle_type)
                (\<lambda>m. pg_type @ group_or_empty m 1) converted)
       sql rules"

lemma convert_types_ORACLE: "convert_types sql ORACLE_TO_POSTGRES = apply_rules oracle_rules sql"
  unfolding convert_types_def apply_rules_def sorted_types_ORACLE
  by (simp add: ORACLE_TO_POSTGRES_def List.map_filter_simps oracle_rules_def)

lemma type_map_oracle: "map_of type_mappings ''oracle_to_postgresql'' = Some ORACLE_TO_POSTGRES"
  by (simp add: type_mappings_def)

text \<open>\<open>convert_schema\<close> from Oracle to PostgreSQL with nothing to rename.\<close>

lemma convert_schema_oracle:
  "convert_schema sql [] [] ''oracle'' ''postgresql'' =
     \<lparr>success = True,
      converted_sql =
        clean_sql (convert_sequences (convert_oracle_syntax (apply_rules oracle_rules sql))),
      transformations = [], tables_converted = [], warnings = [], errors = []\<rparr>"
  by (simp add: convert_schema_def type_map_oracle convert_types_ORACLE)

lemmas stage_rules =
  apply_rules_def oracle_rules_def type_pattern_def convert_oracle_syntax_def
  oracle_syntax_rules_def convert_sequences_def clean_sql_def


section \<open>Numeric types with a precision (C1)\<close>

lemma types_stage_NUMBER_10: "convert_types ''NUMBER(10)'' ORACLE_TO_POSTGRES = ''NUMERIC(10)''"
  by (simp only: convert_types_ORACLE stage_rules eval_rules cong: eval_congs)

lemma syntax_stage_NUMBER_10: "convert_oracle_syntax ''NUMBER(10)'' = ''NUMERIC(10)''"
  by (simp only: stage_rules eval_rules cong: eval_congs)

lemma schema_NUMBER_10:
  "converted_sql (convert_schema ''NUMBER(10)'' [] [] ''oracle'' ''postgresql'') = ''NUMERIC(10)''"
  by (simp only: convert_schema_oracle stage_rules eval_rules cong: eval_congs)

lemma schema_NUMBER_10_2:
  "converted_sql (convert_schema ''NUMBER(10,2)'' [] [] ''oracle'' ''postgresql'') = ''NUMERIC(10,2)''"
  by (simp only: convert_schema_oracle stage_rules eval_rules cong: eval_congs)

lemma schema_NUMBER:
  "converted_sql (convert_schema ''NUMBER'' [] [] ''oracle'' ''postgresql'') = ''NUMERIC''"
  by (simp only: convert_schema_oracle stage_rules eval_rules cong: eval_congs)

text \<open>
  C1. The claim: in the output of the type-conversion and syntax-rewrite stages of
  \<open>convert_schema\<close>, \<open>NUMBER(10)\<close> becomes \<open>INTEGER\<close>, a bare \<open>NUMBER\<close> becomes \<open>NUMERIC\<close> and
  \<open>NUMBER(10,2)\<close> becomes \<open>DECIMAL(10,2)\<close>. What the code computes: \<open>NUMBER(10)\<close> becomes
  \<open>NUMERIC(10)\<close>, in the type stage alone, in the syntax stage alone and in the whole
  conversion, and \<open>NUMBER(10,2)\<close> becomes \<open>NUMERIC(10,2)\<close>; only the bare \<open>NUMBER\<close> comes out
  as claimed. The patterns of the precision forms end in \<open>\)\b\<close>, which asks for a word
  character right after the closing parenthesis, so they match neither at the end of the
  text nor before a blank or a comma, and the generic \<open>NUMBER\<close> rule takes the type with
  its qualifier.
\<close>

theorem number_precision_forms_fall_to_generic_rule:
  "convert_types ''NUMBER(10)'' ORACLE_TO_POSTGRES = ''NUMERIC(10)''
   \<and> convert_oracle_syntax ''NUMBER(10)'' = ''NUMERIC(10)''
   \<and> converted_sql (convert_schema ''NUMBER(10)'' [] [] ''oracle'' ''postgresql'') = ''NUMERIC(10)''
   \<and> converted_sql (convert_schema ''NUMBER(10,2)'' [] [] ''oracle'' ''postgresql'') = ''NUMERIC(10,2)''
   \<and> converted_sql (convert_schema ''NUMBER'' [] [] ''oracle'' ''postgresql'') = ''NUMERIC''"
  using types_stage_NUMBER_10 syntax_stage_NUMBER_10 schema_NUMBER_10 schema_NUMBER_10_2
    schema_NUMBER
  by (intro conjI)

section \<open>Parsing a table definition (C2)\<close>

lemmas ddl_rules =
  parse_create_table_def table_of_match_def create_table_re_def parse_columns_def
  parse_column_def column_re_def constraint_re_def comma_re_def extract_default_def
  default_re_def primary_key_re_def foreign_key_re_def

text \<open>
  C2. \<open>parse_create_table\<close> on the statement of the claim returns one table named
  \<open>orders\<close> with the three columns \<open>order_id\<close>, \<open>customer_id\<close> and \<open>total\<close>, the primary key
  \<open>order_id\<close>, \<open>customer_id\<close> not nullable and the default \<open>0\<close> of \<open>total\<close>.
\<close>

theorem parse_create_table_orders:
  "parse_create_table
     ''CREATE TABLE orders (order_id NUMBER PRIMARY KEY, customer_id NUMBER NOT NULL, total NUMBER(10,2) DEFAULT 0)''
   = [\<lparr>name = ''orders'',
       columns =
         [\<lparr>col_name = ''order_id'', col_type = ''NUMBER'', col_nullable = True,
           col_primary_key = True, col_unique = False, col_default = None\<rparr>,
          \<lparr>col_name = ''customer_id'', col_type = ''NUMBER'', col_nullable = False,
           col_primary_key = False, col_unique = False, col_default = None\<rparr>,
          \<lparr>col_name = ''total'', col_type = ''NUMBER(10,2)'', col_nullable = True,
           col_primary_key = False, col_unique = False, col_default = Some ''0''\<rparr>],
       primary_key = ''order_id'',
       foreign_keys = [],
       indexes = [],
       original_sql =
         ''CREATE TABLE orders (order_id NUMBER PRIMARY KEY, customer_id NUMBER NOT NULL, total NUMBER(10,2) DEFAULT 0)'',
       dialect = ''postgresql''\<rparr>]"
  by (simp only: ddl_rules eval_rules cong: eval_congs)

section \<open>The stub of a stored procedure (C3)\<close>

lemmas procedure_rules =
  convert_to_python_def convert_to_python_lines_def procedure_re_def convert_procedure_name_def
  parse_parameters_def parse_parameter_def parameter_re_def comma_re_def
  oracle_type_to_python_def in_params_of_def out_params_of_def return_type_of_def
  generate_docstring_def

text \<open>
  C3. The claim: the stub of \<open>SP_CREATE_ORDER\<close> is a method named \<open>create_order\<close> with one
  integer parameter, an integer return type and a placeholder body. What the code
  computes: the parameter, the return type and the body are as claimed, and the method is
  named \<open>c_r_e_a_t_e__o_r_d_e_r\<close>, since the conversion to snake case puts an underscore
  before every capital letter of the name.
\<close>

theorem convert_to_python_SP_CREATE_ORDER:
  "convert_to_python
     ''CREATE PROCEDURE SP_CREATE_ORDER(p_customer_id IN NUMBER, p_order_id OUT NUMBER)'' []
   = join [NL]
       [''    async def c_r_e_a_t_e__o_r_d_e_r('',
        ''        self,'',
        ''        customer_id: int,'',
        ''    ) -> int:'',
        ''        '' @ [CHR 0x22, CHR 0x22, CHR 0x22],
        ''        Args:'',
        ''            customer_id: int'',
        ''        Returns:'',
        ''            int'',
        ''        Replaces Oracle SP_CREATE_ORDER procedure.'',
        ''        '' @ [CHR 0x22, CHR 0x22, CHR 0x22],
        ''        # TODO: Implement business logic'',
        ''        pass'']"
  by (simp only: procedure_rules eval_rules cong: eval_congs)

section \<open>Columns fed by a sequence (C4)\<close>

lemma sequences_stage_NUMBER:
  "convert_sequences ''CREATE TABLE t (id NUMBER DEFAULT t_seq.NEXTVAL);''
   = ''CREATE TABLE t (id SERIAL);''"
  by (simp only: stage_rules eval_rules cong: eval_congs)

lemma schema_sequence_NUMBER:
  "converted_sql
     (convert_schema ''CREATE TABLE t (id NUMBER DEFAULT t_seq.NEXTVAL);'' [] []
        ''oracle'' ''postgresql'')
   = ''CREATE TABLE t (id NUMERIC DEFAULT t_seq.NEXTVAL);''"
  by (simp only: convert_schema_oracle stage_rules eval_rules cong: eval_congs)

text \<open>
  C4. The claim: \<open>convert_schema\<close> from Oracle to PostgreSQL turns a column
  \<open>column NUMBER DEFAULT sequence.NEXTVAL\<close> into \<open>column SERIAL\<close>. What the code computes:
  the sequence stage alone does so, but in \<open>convert_schema\<close> it runs after the type and
  syntax stages, which have turned \<open>NUMBER\<close> into \<open>NUMERIC\<close>; the pattern of the
  sequence stage no longer matches and the column keeps its default.
\<close>

theorem sequence_column_of_type_NUMBER_is_not_rewritten:
  "convert_sequences ''CREATE TABLE t (id NUMBER DEFAULT t_seq.NEXTVAL);''
     = ''CREATE TABLE t (id SERIAL);''
   \<and> converted_sql
       (convert_schema ''CREATE TABLE t (id NUMBER DEFAULT t_seq.NEXTVAL);'' [] []
          ''oracle'' ''postgresql'')
     = ''CREATE TABLE t (id NUMERIC DEFAULT t_seq.NEXTVAL);''"
  using sequences_stage_NUMBER schema_sequence_NUMBER by (intro conjI)

end
